theory Spec2Isabelle
  imports Complex_Main
begin

section \<open>Python values\<close>

text \<open>
  The token manager of \<^verbatim>\<open>oauth_manager.py\<close> moves values between three untyped
  places: the JSON cache file, the JSON bodies of the provider's answers, and its own
  attributes. The values are modelled as the JSON fragment of Python's values. An
  \<^verbatim>\<open>int\<close> is an integer of any size, as \<^verbatim>\<open>json.load\<close> reads it. A
  \<^verbatim>\<open>float\<close> is a real number: rounding is not modelled, and neither are infinities
  and NaN. A dict is the list of its items, each key once; \<^verbatim>\<open>json.load\<close> is
  taken to give back the object that \<^verbatim>\<open>json.dump\<close> wrote.
\<close>

datatype pyval =
    PNone
  | PBool bool
  | PInt int
  | PFloat real
  | PStr string
  | PList "pyval list"
  | PDict "(string \<times> pyval) list"

text \<open>Exceptions. \<open>ExchangeFailed v\<close> is
  \<^verbatim>\<open>ValueError(f"Failed to exchange token: {v}")\<close>; the messages the interpreter
  and the libraries generate themselves are not modelled.\<close>

datatype exc =
    ValueError string
  | ExchangeFailed pyval
  | TypeError
  | OverflowError
  | AttributeError
  | JSONDecodeError
  | OSError
  | TimeoutError string

text \<open>\<^verbatim>\<open>str(e)\<close> of a caught exception.\<close>

fun str_exc :: "exc \<Rightarrow> pyval" where
  "str_exc (ValueError s) = PStr s"
| "str_exc (ExchangeFailed v) = PStr ''Failed to exchange token''"
| "str_exc TypeError = PStr ''TypeError''"
| "str_exc OverflowError = PStr ''int too large to convert to float''"
| "str_exc AttributeError = PStr ''AttributeError''"
| "str_exc JSONDecodeError = PStr ''JSONDecodeError''"
| "str_exc OSError = PStr ''OSError''"
| "str_exc (TimeoutError s) = PStr s"

text \<open>Truth value of a value, as \<^verbatim>\<open>if x:\<close> and \<^verbatim>\<open>not x\<close> test it.\<close>

fun truthy :: "pyval \<Rightarrow> bool" where
  "truthy PNone = False"
| "truthy (PBool b) = b"
| "truthy (PInt i) = (i \<noteq> 0)"
| "truthy (PFloat r) = (r \<noteq> 0)"
| "truthy (PStr s) = (s \<noteq> [])"
| "truthy (PList xs) = (xs \<noteq> [])"
| "truthy (PDict kvs) = (kvs \<noteq> [])"

text \<open>The number a value stands for in a subtraction and a comparison
  (\<^verbatim>\<open>bool\<close> is a subclass of \<^verbatim>\<open>int\<close>); \<open>None\<close> where
  \<^verbatim>\<open>x - 86400\<close> raises \<^verbatim>\<open>TypeError\<close>. An \<^verbatim>\<open>int\<close> is
  subtracted from and compared with exactly, whatever its size.\<close>

fun as_num :: "pyval \<Rightarrow> real option" where
  "as_num (PInt i) = Some (of_int i)"
| "as_num (PFloat r) = Some r"
| "as_num (PBool b) = Some (if b then 1 else 0)"
| "as_num _ = None"

text \<open>The right operand of \<^verbatim>\<open>time.time() + x\<close>. The addition converts an
  \<^verbatim>\<open>int\<close> to a \<^verbatim>\<open>float\<close> first, which raises
  \<^verbatim>\<open>OverflowError\<close> when the integer rounds to a value beyond the largest double:
  from \<open>2^1024 - 2^970\<close> on.\<close>

definition FLOAT_INT_LIMIT :: int where
  "FLOAT_INT_LIMIT = 2 ^ 1024 - 2 ^ 970"

fun float_operand :: "pyval \<Rightarrow> exc + real" where
  "float_operand (PFloat r) = Inr r"
| "float_operand (PInt i) =
     (if \<bar>i\<bar> < FLOAT_INT_LIMIT then Inr (of_int i) else Inl OverflowError)"
| "float_operand (PBool b) = Inr (if b then 1 else 0)"
| "float_operand _ = Inl TypeError"

text \<open>\<^verbatim>\<open>d.get(key, default)\<close>: only a dict has the method.\<close>

fun dict_get :: "pyval \<Rightarrow> string \<Rightarrow> pyval \<Rightarrow> exc + pyval" where
  "dict_get (PDict kvs) k d = Inr (case map_of kvs k of None \<Rightarrow> d | Some v \<Rightarrow> v)"
| "dict_get _ k d = Inl AttributeError"

text \<open>\<^verbatim>\<open>now < (expires_at - margin)\<close>.\<close>

definition before_margin :: "real \<Rightarrow> pyval \<Rightarrow> real \<Rightarrow> exc + bool" where
  "before_margin now expires_at margin =
     (case as_num expires_at of
        None \<Rightarrow> Inl TypeError
      | Some e \<Rightarrow> Inr (now < e - margin))"

section \<open>The manager, the world around it, and what the world does\<close>

text \<open>The attributes of \<^verbatim>\<open>OAuth2TokenManager\<close>; \<open>priv_x\<close> is the attribute
  \<^verbatim>\<open>_x\<close>.\<close>

record manager =
  client_id :: "string option"
  client_secret :: "string option"
  redirect_uri :: string
  scopes :: string
  priv_access_token :: pyval
  priv_token_expires_at :: pyval
  priv_refresh_token :: pyval

text \<open>The cache file \<^verbatim>\<open>.oauth_token_cache.json\<close>: absent, present but not
  readable, readable but not JSON, or a JSON text (given by the value
  \<^verbatim>\<open>json.load\<close> returns for it).\<close>

datatype file_state = NoFile | Unreadable | BadJson | JsonFile pyval

type_synonym request = "(string \<times> pyval) list"

text \<open>What the manager can change outside itself: the cache file, the requests posted
  to \<^verbatim>\<open>https://graph.facebook.com/v18.0/oauth/access_token\<close> (in order), the
  URLs opened in the browser, and the port of the callback listener while it is up.\<close>

record world =
  token_file :: file_state
  net_log :: "request list"
  browser_log :: "string list"
  listener :: "nat option"

text \<open>The body of an HTTP answer, and the three ways a post ends: the client raises
  (no answer, a timeout), \<^verbatim>\<open>raise_for_status\<close> raises
  \<^verbatim>\<open>HTTPStatusError\<close>, or the answer is accepted. The strings are
  \<^verbatim>\<open>str(e)\<close>.\<close>

datatype content = NoContent | NotJson | Json pyval

datatype http_outcome =
    TransportError string
  | StatusError string content
  | Accepted content

text \<open>Opening the cache file for writing: it works, \<^verbatim>\<open>open\<close> raises (the file
  is left as it was), or the write raises after the file was truncated.\<close>

datatype write_outcome = WriteOk | OpenFails | DumpFails

text \<open>What reaches the callback listener within the 300 seconds.\<close>

datatype callback = Code string | NoCode | NoCallback

text \<open>What the outside does during one operation: the provider's answer to each
  request, the fate of a write and of a removal of the cache file, the clock read by
  \<^verbatim>\<open>_save_token\<close>, whether the port can be bound, and the callback.\<close>

record env =
  post :: "request \<Rightarrow> http_outcome"
  fs_write :: write_outcome
  fs_remove_ok :: bool
  time_save :: real
  bind_ok :: bool
  callback :: callback

type_synonym 'a outcome = "(exc + 'a) \<times> manager \<times> world"

definition opt_str :: "string option \<Rightarrow> pyval" where
  "opt_str s = (case s of None \<Rightarrow> PNone | Some x \<Rightarrow> PStr x)"

section \<open>The credential store\<close>

definition load_cached_token :: "manager \<Rightarrow> world \<Rightarrow> manager" where
  "load_cached_token m w =
     (case token_file w of
        NoFile \<Rightarrow> m
      | Unreadable \<Rightarrow> m
      | BadJson \<Rightarrow> m
      | JsonFile data \<Rightarrow>
          (case dict_get data ''access_token'' PNone of
             Inl _ \<Rightarrow> m
           | Inr a \<Rightarrow>
               (case dict_get data ''expires_at'' PNone of
                  Inl _ \<Rightarrow> m\<lparr>priv_access_token := a\<rparr>
                | Inr e \<Rightarrow>
                    (case dict_get data ''refresh_token'' PNone of
                       Inl _ \<Rightarrow> m\<lparr>priv_access_token := a, priv_token_expires_at := e\<rparr>
                     | Inr r \<Rightarrow>
                         m\<lparr>priv_access_token := a, priv_token_expires_at := e,
                           priv_refresh_token := r\<rparr>))))"

text \<open>The constructor, given \<^verbatim>\<open>os.getenv\<close>.\<close>

definition OAuth2TokenManager_init :: "(string \<Rightarrow> string option) \<Rightarrow> world \<Rightarrow> manager" where
  "OAuth2TokenManager_init getenv w =
     load_cached_token
       \<lparr>client_id = getenv ''WHATSAPP_CLIENT_ID'',
        client_secret = getenv ''WHATSAPP_CLIENT_SECRET'',
        redirect_uri =
          (case getenv ''WHATSAPP_OAUTH_REDIRECT_URI'' of
             None \<Rightarrow> ''http://localhost:8080/callback'' | Some u \<Rightarrow> u),
        scopes =
          (case getenv ''WHATSAPP_OAUTH_SCOPES'' of
             None \<Rightarrow> ''whatsapp_business_management,whatsapp_business_messaging,business_management''
           | Some s \<Rightarrow> s),
        priv_access_token = PNone,
        priv_token_expires_at = PNone,
        priv_refresh_token = PNone\<rparr> w"

text \<open>The JSON object \<^verbatim>\<open>_save_token\<close> dumps.\<close>

definition cache_entry :: "pyval \<Rightarrow> pyval \<Rightarrow> pyval \<Rightarrow> pyval" where
  "cache_entry a e r =
     PDict [(''access_token'', a), (''expires_at'', e), (''refresh_token'', r)]"

definition write_cache :: "write_outcome \<Rightarrow> pyval \<Rightarrow> world \<Rightarrow> world" where
  "write_cache wo v w =
     (case wo of
        WriteOk \<Rightarrow> w\<lparr>token_file := JsonFile v\<rparr>
      | OpenFails \<Rightarrow> w
      | DumpFails \<Rightarrow> w\<lparr>token_file := BadJson\<rparr>)"

definition save_token :: "manager \<Rightarrow> world \<Rightarrow> env \<Rightarrow> pyval \<Rightarrow> pyval \<Rightarrow> pyval \<Rightarrow> unit outcome" where
  "save_token m w ev access_token expires_in refresh_token =
     (let m1 = m\<lparr>priv_access_token := access_token\<rparr> in
      case float_operand expires_in of
        Inl e \<Rightarrow> (Inl e, m1, w)
      | Inr d \<Rightarrow>
          (let m2 = m1\<lparr>priv_token_expires_at := PFloat (time_save ev + d)\<rparr>;
               m3 = (if truthy refresh_token then m2\<lparr>priv_refresh_token := refresh_token\<rparr>
                     else m2)
           in (Inr (),
               m3,
               write_cache (fs_write ev)
                 (cache_entry access_token (priv_token_expires_at m3) refresh_token) w)))"

definition is_configured :: "manager \<Rightarrow> bool" where
  "is_configured m = (truthy (opt_str (client_id m)) \<and> truthy (opt_str (client_secret m)))"

section \<open>Building the authorization URL\<close>

text \<open>\<^verbatim>\<open>urllib.parse.urlencode\<close> of a dict of strings: each key and value goes
  through \<^verbatim>\<open>quote_plus\<close> (a string is the list of its UTF-8 bytes).\<close>

definition hex_digit :: "nat \<Rightarrow> char" where
  "hex_digit n = ''0123456789ABCDEF'' ! (n mod 16)"

definition quote_char :: "char \<Rightarrow> string" where
  "quote_char c =
     (if c \<in> set ''ABCDEFGHIJKLMNOPQRSTUVWXYZabcdefghijklmnopqrstuvwxyz0123456789_.-~'' then [c]
      else if c = CHR '' '' then ''+''
      else [CHR ''%'', hex_digit (of_char c div 16), hex_digit (of_char c mod 16)])"

definition quote_plus :: "string \<Rightarrow> string" where
  "quote_plus s = concat (map quote_char s)"

fun urlencode :: "(string \<times> string) list \<Rightarrow> string" where
  "urlencode [] = []"
| "urlencode [(k, v)] = quote_plus k @ ''='' @ quote_plus v"
| "urlencode ((k, v) # kvs) = quote_plus k @ ''='' @ quote_plus v @ ''&'' @ urlencode kvs"

text \<open>\<^verbatim>\<open>str(x)\<close> of an environment value.\<close>

definition str_opt :: "string option \<Rightarrow> string" where
  "str_opt s = (case s of None \<Rightarrow> ''None'' | Some x \<Rightarrow> x)"

definition get_authorization_url :: "manager \<Rightarrow> string option \<Rightarrow> exc + string" where
  "get_authorization_url m state =
     (if \<not> is_configured m then
        Inl (ValueError
          ''OAuth2 not configured. Set WHATSAPP_CLIENT_ID and WHATSAPP_CLIENT_SECRET'')
      else
        Inr (''https://www.facebook.com/v18.0/dialog/oauth?'' @
          urlencode
            [(''client_id'', str_opt (client_id m)),
             (''redirect_uri'', redirect_uri m),
             (''scope'', scopes m),
             (''response_type'', ''code''),
             (''state'',
                (case state of
                   None \<Rightarrow> ''whatsapp_mcp_oauth''
                 | Some s \<Rightarrow> if s = [] then ''whatsapp_mcp_oauth'' else s))]))"

section \<open>The token exchanges\<close>

definition log_request :: "request \<Rightarrow> world \<Rightarrow> world" where
  "log_request req w = w\<lparr>net_log := net_log w @ [req]\<rparr>"

text \<open>The parameters of the two kinds of request.\<close>

definition code_params :: "manager \<Rightarrow> string \<Rightarrow> request" where
  "code_params m authorization_code =
     [(''client_id'', opt_str (client_id m)),
      (''client_secret'', opt_str (client_secret m)),
      (''redirect_uri'', PStr (redirect_uri m)),
      (''code'', PStr authorization_code)]"

definition fb_exchange_params :: "manager \<Rightarrow> pyval \<Rightarrow> request" where
  "fb_exchange_params m token =
     [(''grant_type'', PStr ''fb_exchange_token''),
      (''client_id'', opt_str (client_id m)),
      (''client_secret'', opt_str (client_secret m)),
      (''fb_exchange_token'', token)]"

definition exchange_for_long_lived_token :: "manager \<Rightarrow> world \<Rightarrow> env \<Rightarrow> pyval \<Rightarrow> pyval \<times> world" where
  "exchange_for_long_lived_token m w ev short_lived_token =
     (if \<not> is_configured m then (PNone, w)
      else
        (let params = fb_exchange_params m short_lived_token;
             w1 = log_request params w
         in case post ev params of
              TransportError _ \<Rightarrow> (PNone, w1)
            | StatusError _ _ \<Rightarrow> (PNone, w1)
            | Accepted c \<Rightarrow>
                (case c of
                   NoContent \<Rightarrow> (PNone, w1)
                 | NotJson \<Rightarrow> (PNone, w1)
                 | Json v \<Rightarrow> (v, w1))))"

text \<open>The values \<^verbatim>\<open>exchange_code_for_token\<close> returns.\<close>

definition success_result :: "pyval \<Rightarrow> pyval \<Rightarrow> pyval" where
  "success_result a x =
     PDict [(''access_token'', a), (''expires_in'', x), (''success'', PBool True)]"

definition failure_result :: "pyval \<Rightarrow> pyval" where
  "failure_result msg = PDict [(''success'', PBool False), (''error'', msg)]"

text \<open>Lines 128 and 129: the answer of the upgrade, when it is truthy, supersedes the
  short-lived values.\<close>

definition supersede :: "pyval \<Rightarrow> pyval \<Rightarrow> pyval \<Rightarrow> exc + pyval \<times> pyval" where
  "supersede long_lived_token access_token expires_in =
     (if truthy long_lived_token then
        (case dict_get long_lived_token ''access_token'' access_token of
           Inl e \<Rightarrow> Inl e
         | Inr a \<Rightarrow>
             (case dict_get long_lived_token ''expires_in'' expires_in of
                Inl e \<Rightarrow> Inl e
              | Inr x \<Rightarrow> Inr (a, x)))
      else Inr (access_token, expires_in))"

text \<open>Lines 120 to 137: the body of the \<^verbatim>\<open>try\<close> once the answer to the code
  exchange is accepted.\<close>

definition exchange_accepted :: "manager \<Rightarrow> world \<Rightarrow> env \<Rightarrow> content \<Rightarrow> pyval outcome" where
  "exchange_accepted m w ev c =
     (case c of
        NoContent \<Rightarrow> (Inl JSONDecodeError, m, w)
      | NotJson \<Rightarrow> (Inl JSONDecodeError, m, w)
      | Json token_data \<Rightarrow>
          (case dict_get token_data ''access_token'' PNone of
             Inl e \<Rightarrow> (Inl e, m, w)
           | Inr access_token \<Rightarrow>
               (case dict_get token_data ''expires_in'' (PInt 3600) of
                  Inl e \<Rightarrow> (Inl e, m, w)
                | Inr expires_in \<Rightarrow>
                    (case exchange_for_long_lived_token m w ev access_token of
                       (long_lived_token, w1) \<Rightarrow>
                         (case supersede long_lived_token access_token expires_in of
                            Inl e \<Rightarrow> (Inl e, m, w1)
                          | Inr (a, x) \<Rightarrow>
                              (case dict_get token_data ''refresh_token'' PNone of
                                 Inl e \<Rightarrow> (Inl e, m, w1)
                               | Inr r \<Rightarrow>
                                   (case save_token m w1 ev a x r of
                                      (Inl e, m', w') \<Rightarrow> (Inl e, m', w')
                                    | (Inr _, m', w') \<Rightarrow>
                                        (Inr (success_result a x), m', w'))))))))"

text \<open>Lines 138 to 143: the handler of \<^verbatim>\<open>HTTPStatusError\<close>. What it raises
  itself leaves the function.\<close>

definition status_error_result :: "string \<Rightarrow> content \<Rightarrow> exc + pyval" where
  "status_error_result s c =
     (case (case c of
              NoContent \<Rightarrow> Inr (PDict [])
            | NotJson \<Rightarrow> Inl JSONDecodeError
            | Json v \<Rightarrow> Inr v) of
        Inl e \<Rightarrow> Inl e
      | Inr error_data \<Rightarrow>
          (case dict_get error_data ''error'' (PDict []) of
             Inl e \<Rightarrow> Inl e
           | Inr er \<Rightarrow>
               (case dict_get er ''message'' (PStr s) of
                  Inl e \<Rightarrow> Inl e
                | Inr msg \<Rightarrow> Inr (failure_result msg))))"

definition exchange_code_for_token :: "manager \<Rightarrow> world \<Rightarrow> env \<Rightarrow> string \<Rightarrow> pyval outcome" where
  "exchange_code_for_token m w ev authorization_code =
     (if \<not> is_configured m then (Inl (ValueError ''OAuth2 not configured''), m, w)
      else
        (let params = code_params m authorization_code;
             w1 = log_request params w
         in case post ev params of
              TransportError s \<Rightarrow> (Inr (failure_result (PStr s)), m, w1)
            | StatusError s c \<Rightarrow> (status_error_result s c, m, w1)
            | Accepted c \<Rightarrow>
                (case exchange_accepted m w1 ev c of
                   (Inl e, m', w') \<Rightarrow> (Inr (failure_result (str_exc e)), m', w')
                 | (Inr res, m', w') \<Rightarrow> (Inr res, m', w'))))"

text \<open>The method \<^verbatim>\<open>refresh_token\<close> (lines 170 to 197).\<close>

definition refresh_token :: "manager \<Rightarrow> world \<Rightarrow> env \<Rightarrow> bool outcome" where
  "refresh_token m w ev =
     (if \<not> truthy (priv_refresh_token m) then (Inr False, m, w)
      else
        (let params = fb_exchange_params m (priv_refresh_token m);
             w1 = log_request params w
         in case post ev params of
              TransportError _ \<Rightarrow> (Inr False, m, w1)
            | StatusError _ _ \<Rightarrow> (Inr False, m, w1)
            | Accepted c \<Rightarrow>
                (case c of
                   NoContent \<Rightarrow> (Inr False, m, w1)
                 | NotJson \<Rightarrow> (Inr False, m, w1)
                 | Json token_data \<Rightarrow>
                     (case dict_get token_data ''access_token'' PNone of
                        Inl _ \<Rightarrow> (Inr False, m, w1)
                      | Inr access_token \<Rightarrow>
                          (case dict_get token_data ''expires_in'' (PInt 3600) of
                             Inl _ \<Rightarrow> (Inr False, m, w1)
                           | Inr expires_in \<Rightarrow>
                               (case save_token m w1 ev access_token expires_in
                                       (priv_refresh_token m) of
                                  (Inl _, m', w') \<Rightarrow> (Inr False, m', w')
                                | (Inr _, m', w') \<Rightarrow> (Inr True, m', w')))))))"

definition REFRESH_BUFFER_SECONDS :: real where
  "REFRESH_BUFFER_SECONDS = 1 * 24 * 3600"

text \<open>\<open>now\<close> is the clock read at line 209.\<close>

definition refresh_if_needed :: "manager \<Rightarrow> world \<Rightarrow> env \<Rightarrow> real \<Rightarrow> unit outcome" where
  "refresh_if_needed m w ev now =
     (if \<not> truthy (priv_access_token m) \<or> \<not> truthy (priv_token_expires_at m) then
        (Inr (), m, w)
      else
        (case before_margin now (priv_token_expires_at m) REFRESH_BUFFER_SECONDS of
           Inl e \<Rightarrow> (Inl e, m, w)
         | Inr still_valid \<Rightarrow>
             if still_valid then (Inr (), m, w)
             else if \<not> is_configured m then (Inr (), m, w)
             else
               (case exchange_for_long_lived_token m w ev (priv_access_token m) of
                  (new_data, w1) \<Rightarrow>
                    if truthy new_data then
                      (case dict_get new_data ''access_token'' PNone of
                         Inl e \<Rightarrow> (Inl e, m, w1)
                       | Inr access_token \<Rightarrow>
                           (case dict_get new_data ''expires_in'' (PInt 5184000) of
                              Inl e \<Rightarrow> (Inl e, m, w1)
                            | Inr expires_in \<Rightarrow>
                                if truthy access_token then
                                  save_token m w1 ev access_token expires_in
                                    (priv_refresh_token m)
                                else (Inr (), m, w1)))
                    else (Inr (), m, w1))))"

text \<open>\<open>now\<close> is the clock read at line 224.\<close>

definition get_access_token :: "manager \<Rightarrow> real \<Rightarrow> exc + pyval" where
  "get_access_token m now =
     (if truthy (priv_access_token m) \<and> truthy (priv_token_expires_at m) then
        (case before_margin now (priv_token_expires_at m) 300 of
           Inl e \<Rightarrow> Inl e
         | Inr fresh \<Rightarrow> if fresh then Inr (priv_access_token m) else Inr (priv_access_token m))
      else Inr (priv_access_token m))"

text \<open>The parameters have their declared types: \<^verbatim>\<open>token: str\<close>,
  \<^verbatim>\<open>expires_in: int\<close>.\<close>

definition set_access_token :: "manager \<Rightarrow> world \<Rightarrow> env \<Rightarrow> string \<Rightarrow> int \<Rightarrow> unit outcome" where
  "set_access_token m w ev token expires_in =
     save_token m w ev (PStr token) (PInt expires_in) PNone"

definition clear_token :: "manager \<Rightarrow> world \<Rightarrow> env \<Rightarrow> manager \<times> world" where
  "clear_token m w ev =
     (m\<lparr>priv_access_token := PNone, priv_token_expires_at := PNone,
        priv_refresh_token := PNone\<rparr>,
      (if token_file w \<noteq> NoFile then
         (if fs_remove_ok ev then w\<lparr>token_file := NoFile\<rparr> else w)
       else w))"

section \<open>The interactive flow\<close>

text \<open>The decimal digits of the port, as the f-string prints them.\<close>

fun dec_str :: "nat \<Rightarrow> string" where
  "dec_str n =
     (if n < 10 then [''0123456789'' ! n]
      else dec_str (n div 10) @ [''0123456789'' ! (n mod 10)])"

declare dec_str.simps [simp del]

text \<open>Lines 304 to 325, the body of the \<^verbatim>\<open>try\<close>, entered with the listener up.
  The callback handler runs on another thread; the model takes what it delivers to the
  future within the timeout from the environment.\<close>

definition flow_body :: "manager \<Rightarrow> world \<Rightarrow> env \<Rightarrow> nat \<Rightarrow> string outcome" where
  "flow_body m w ev port =
     (let original_redirect_uri = redirect_uri m;
          m1 = m\<lparr>redirect_uri := ''http://localhost:'' @ dec_str port @ ''/callback''\<rparr>
      in case get_authorization_url m1 None of
           Inl e \<Rightarrow> (Inl e, m1, w)
         | Inr auth_url \<Rightarrow>
             (let w1 = w\<lparr>browser_log := browser_log w @ [auth_url]\<rparr>
              in case callback ev of
                   NoCallback \<Rightarrow>
                     (Inl (TimeoutError ''OAuth flow timed out. Please try again.''), m1, w1)
                 | NoCode \<Rightarrow> (Inl (ValueError ''No code found in callback''), m1, w1)
                 | Code code \<Rightarrow>
                     (case exchange_code_for_token m1 w1 ev code of
                        (Inl e, m2, w2) \<Rightarrow> (Inl e, m2, w2)
                      | (Inr result, m2, w2) \<Rightarrow>
                          (let m3 = m2\<lparr>redirect_uri := original_redirect_uri\<rparr>
                           in case dict_get result ''success'' PNone of
                                Inl e \<Rightarrow> (Inl e, m3, w2)
                              | Inr ok \<Rightarrow>
                                  if truthy ok then
                                    (Inr ''Successfully authenticated and token cached.'', m3, w2)
                                  else
                                    (case dict_get result ''error'' PNone of
                                       Inl e \<Rightarrow> (Inl e, m3, w2)
                                     | Inr err \<Rightarrow> (Inl (ExchangeFailed err), m3, w2))))))"

text \<open>\<^verbatim>\<open>start_local_oauth_flow\<close>: the guard, the bind of the listener (which
  raises when the port is taken), the body, and the \<^verbatim>\<open>finally\<close> clause.\<close>

definition start_local_oauth_flow :: "manager \<Rightarrow> world \<Rightarrow> env \<Rightarrow> nat \<Rightarrow> string outcome" where
  "start_local_oauth_flow m w ev port =
     (if \<not> is_configured m then
        (Inl (ValueError
           ''OAuth2 not configured. Set WHATSAPP_CLIENT_ID and WHATSAPP_CLIENT_SECRET''), m, w)
      else if \<not> bind_ok ev then (Inl OSError, m, w)
      else
        (case flow_body m (w\<lparr>listener := Some port\<rparr>) ev port of
           (r, m', w') \<Rightarrow> (r, m', w'\<lparr>listener := None\<rparr>)))"

section \<open>The helpers of \<^verbatim>\<open>utils.py\<close>\<close>

text \<open>\<open>oauth_manager\<close> is \<open>None\<close> when the import failed. \<open>has_valid_token\<close> reads
  a cache file at a path of its own, three directories above \<^verbatim>\<open>utils.py\<close>.\<close>

definition has_valid_token :: "manager option \<Rightarrow> file_state \<Rightarrow> real \<Rightarrow> (exc + bool) \<times> manager option" where
  "has_valid_token oauth_manager file now =
     (case oauth_manager of
        None \<Rightarrow> (Inr False, None)
      | Some m \<Rightarrow>
          if \<not> is_configured m then (Inr False, Some m)
          else
            (case get_access_token m now of
               Inl e \<Rightarrow> (Inl e, Some m)
             | Inr token \<Rightarrow>
                 if truthy token then (Inr True, Some m)
                 else
                   (case file of
                      NoFile \<Rightarrow> (Inr False, Some m)
                    | Unreadable \<Rightarrow> (Inr False, Some m)
                    | BadJson \<Rightarrow> (Inr False, Some m)
                    | JsonFile data \<Rightarrow>
                        (case dict_get data ''access_token'' PNone of
                           Inl _ \<Rightarrow> (Inr False, Some m)
                         | Inr a \<Rightarrow>
                             if truthy a then
                               (case dict_get data ''expires_at'' PNone of
                                  Inl _ \<Rightarrow> (Inr False, Some (m\<lparr>priv_access_token := a\<rparr>))
                                | Inr e \<Rightarrow>
                                    (case dict_get data ''refresh_token'' PNone of
                                       Inl _ \<Rightarrow>
                                         (Inr False,
                                          Some (m\<lparr>priv_access_token := a,
                                                  priv_token_expires_at := e\<rparr>))
                                     | Inr r \<Rightarrow>
                                         (Inr True,
                                          Some (m\<lparr>priv_access_token := a,
                                                  priv_token_expires_at := e,
                                                  priv_refresh_token := r\<rparr>))))
                             else (Inr False, Some m)))))"

section \<open>Shapes of the provider's answers\<close>

text \<open>The body of a rejected request that the handler of lines 138 to 143 can read: no
  content, or a JSON object whose \<^verbatim>\<open>error\<close> member, when present, is an
  object.\<close>

definition provider_error_shape :: "content \<Rightarrow> bool" where
  "provider_error_shape c =
     (case c of
        NoContent \<Rightarrow> True
      | NotJson \<Rightarrow> False
      | Json v \<Rightarrow>
          (case v of
             PDict kvs \<Rightarrow>
               (case map_of kvs ''error'' of
                  None \<Rightarrow> True
                | Some er \<Rightarrow> (case er of PDict _ \<Rightarrow> True | _ \<Rightarrow> False))
           | _ \<Rightarrow> False))"

text \<open>A result of \<open>exchange_code_for_token\<close>: a dict that says whether it is a success.\<close>

definition is_result :: "pyval \<Rightarrow> bool" where
  "is_result res =
     (dict_get res ''success'' PNone = Inr (PBool True) \<or>
      dict_get res ''success'' PNone = Inr (PBool False))"

section \<open>The credential invariant\<close>

text \<open>A provider's accepted answer is well typed when its \<^verbatim>\<open>expires_in\<close>, if it
  has one, is a number that \<^verbatim>\<open>time.time()\<close> can be added to.\<close>

definition numeric_lifetime :: "http_outcome \<Rightarrow> bool" where
  "numeric_lifetime r =
     (case r of
        Accepted c \<Rightarrow>
          (case c of
             Json v \<Rightarrow>
               (case v of
                  PDict kvs \<Rightarrow>
                    (case map_of kvs ''expires_in'' of
                       None \<Rightarrow> True
                     | Some x \<Rightarrow>
                         (case float_operand x of Inl _ \<Rightarrow> False | Inr _ \<Rightarrow> True))
                | _ \<Rightarrow> True)
           | _ \<Rightarrow> True)
      | _ \<Rightarrow> True)"

text \<open>A cache file has the persisted layout when, being a JSON object with an
  \<^verbatim>\<open>access_token\<close>, it has an \<^verbatim>\<open>expires_at\<close> too. A missing, unreadable
  or malformed file, and JSON that is not an object, load nothing.\<close>

definition cache_ok :: "file_state \<Rightarrow> bool" where
  "cache_ok f =
     (case f of
        JsonFile data \<Rightarrow>
          (case dict_get data ''access_token'' PNone of
             Inl _ \<Rightarrow> True
           | Inr a \<Rightarrow> a = PNone \<or> dict_get data ''expires_at'' PNone \<noteq> Inr PNone)
      | _ \<Rightarrow> True)"

definition store_inv :: "manager \<Rightarrow> world \<Rightarrow> bool" where
  "store_inv m w =
     ((priv_access_token m \<noteq> PNone \<longrightarrow> priv_token_expires_at m \<noteq> PNone) \<and>
      cache_ok (token_file w))"

text \<open>The states a manager and its world go through: construction over a cache file of
  the persisted layout, then any of the operations, each against a provider whose
  answers are well typed.\<close>

inductive reachable :: "manager \<Rightarrow> world \<Rightarrow> bool" where
  construct: "cache_ok (token_file w) \<Longrightarrow> reachable (OAuth2TokenManager_init getenv w) w"
| save: "reachable m w \<Longrightarrow> float_operand x = Inr d \<Longrightarrow>
     save_token m w ev a x r = (res, m', w') \<Longrightarrow> reachable m' w'"
| exchange: "reachable m w \<Longrightarrow> \<forall>req. numeric_lifetime (post ev req) \<Longrightarrow>
     exchange_code_for_token m w ev code = (res1, m', w') \<Longrightarrow> reachable m' w'"
| refresh: "reachable m w \<Longrightarrow> \<forall>req. numeric_lifetime (post ev req) \<Longrightarrow>
     refresh_if_needed m w ev now = (res, m', w') \<Longrightarrow> reachable m' w'"
| refresh_by_token: "reachable m w \<Longrightarrow> \<forall>req. numeric_lifetime (post ev req) \<Longrightarrow>
     refresh_token m w ev = (res2, m', w') \<Longrightarrow> reachable m' w'"
| set: "reachable m w \<Longrightarrow> \<bar>expires_in\<bar> < FLOAT_INT_LIMIT \<Longrightarrow>
     set_access_token m w ev token expires_in = (res, m', w') \<Longrightarrow> reachable m' w'"
| clear: "reachable m w \<Longrightarrow> clear_token m w ev = (m', w') \<Longrightarrow> reachable m' w'"
| flow: "reachable m w \<Longrightarrow> \<forall>req. numeric_lifetime (post ev req) \<Longrightarrow>
     start_local_oauth_flow m w ev port = (res3, m', w') \<Longrightarrow> reachable m' w'"
| has_valid: "reachable m w \<Longrightarrow> cache_ok other \<Longrightarrow>
     has_valid_token (Some m) other now = (res4, Some m') \<Longrightarrow> reachable m' w"

section \<open>Example states\<close>

text \<open>An empty world, a configured and an unconfigured manager built by the constructor,
  a manager holding a token that expired long ago, and a provider whose answer has an
  \<^verbatim>\<open>access_token\<close> and no \<^verbatim>\<open>expires_in\<close>.\<close>

definition world0 :: world where
  "world0 = \<lparr>token_file = NoFile, net_log = [], browser_log = [], listener = None\<rparr>"

definition getenv_configured :: "string \<Rightarrow> string option" where
  "getenv_configured =
     [''WHATSAPP_CLIENT_ID'' \<mapsto> ''id'', ''WHATSAPP_CLIENT_SECRET'' \<mapsto> ''secret'']"

definition m_configured :: manager where
  "m_configured = OAuth2TokenManager_init getenv_configured world0"

definition m_unconfigured :: manager where
  "m_unconfigured = OAuth2TokenManager_init (\<lambda>_. None) world0"

definition m_holding :: manager where
  "m_holding = m_configured\<lparr>priv_access_token := PStr ''old'',
     priv_token_expires_at := PFloat 2000, priv_refresh_token := PStr ''R''\<rparr>"

definition ev_omit :: env where
  "ev_omit = \<lparr>post = (\<lambda>_. Accepted (Json (PDict [(''access_token'', PStr ''new'')]))),
     fs_write = WriteOk, fs_remove_ok = True, time_save = 1000, bind_ok = True,
     callback = NoCallback\<rparr>"

text \<open>A provider that accepts the code \<^verbatim>\<open>abc\<close> with a short-lived token,
  upgrades that token to a long-lived one, and rejects everything else.\<close>

definition provider_demo :: "request \<Rightarrow> http_outcome" where
  "provider_demo req =
     (if map_of req ''code'' = Some (PStr ''abc'') then
        Accepted (Json (PDict [(''access_token'', PStr ''short''), (''expires_in'', PInt 3600)]))
      else if map_of req ''fb_exchange_token'' = Some (PStr ''short'') then
        Accepted (Json (PDict [(''access_token'', PStr ''long''), (''expires_in'', PInt 5184000)]))
      else StatusError ''400 Bad Request''
             (Json (PDict [(''error'', PDict [(''message'', PStr ''Invalid code'')])])))"

definition ev_demo :: env where
  "ev_demo = \<lparr>post = provider_demo, fs_write = WriteOk, fs_remove_ok = True, time_save = 1000,
     bind_ok = True, callback = Code ''abc''\<rparr>"





text \<open>An unconfigured manager holding the expired token, a cache file with an access
  token and no expiry, and a file system that refuses the write.\<close>

definition m_unconfigured_holding :: manager where
  "m_unconfigured_holding = m_unconfigured\<lparr>priv_access_token := PStr ''old'',
     priv_token_expires_at := PFloat 2000\<rparr>"

definition world_partial_cache :: world where
  "world_partial_cache = world0\<lparr>token_file := JsonFile (PDict [(''access_token'', PStr ''A'')])\<rparr>"


text \<open>A manager configured with a redirect URI of its own, and an authorization that
  nobody completes.\<close>

definition m_custom :: manager where
  "m_custom = m_configured\<lparr>redirect_uri := ''https://example.com/cb''\<rparr>"

definition ev_timeout :: env where
  "ev_timeout = ev_demo\<lparr>callback := NoCallback\<rparr>"

section \<open>Auxiliary facts\<close>

lemma m_configured_eq:
  "m_configured = \<lparr>client_id = Some ''id'', client_secret = Some ''secret'',
     redirect_uri = ''http://localhost:8080/callback'',
     scopes = ''whatsapp_business_management,whatsapp_business_messaging,business_management'',
     priv_access_token = PNone, priv_token_expires_at = PNone, priv_refresh_token = PNone\<rparr>"
  by (simp add: m_configured_def OAuth2TokenManager_init_def getenv_configured_def
      load_cached_token_def world0_def)

lemma m_unconfigured_eq:
  "m_unconfigured = \<lparr>client_id = None, client_secret = None,
     redirect_uri = ''http://localhost:8080/callback'',
     scopes = ''whatsapp_business_management,whatsapp_business_messaging,business_management'',
     priv_access_token = PNone, priv_token_expires_at = PNone, priv_refresh_token = PNone\<rparr>"
  by (simp add: m_unconfigured_def OAuth2TokenManager_init_def
      load_cached_token_def world0_def)

lemma is_configured_examples [simp]:
  "is_configured m_configured" "\<not> is_configured m_unconfigured" "is_configured m_holding"
  "\<not> is_configured m_unconfigured_holding"
  by (simp_all add: m_configured_eq m_unconfigured_eq m_holding_def m_unconfigured_holding_def
      is_configured_def opt_str_def)

subsection \<open>Numbers\<close>

lemma as_num_truthy: "as_num v = Some e \<Longrightarrow> truthy v = (e \<noteq> 0)"
  by (cases v) (auto split: if_splits)

lemma float_limit_large: "(10 :: int) ^ 12 < FLOAT_INT_LIMIT"
  by (simp add: FLOAT_INT_LIMIT_def)

lemma float_limit_googol: "FLOAT_INT_LIMIT \<le> (10 :: int) ^ 400"
  by (simp add: FLOAT_INT_LIMIT_def)

lemma float_operand_small:
  "\<bar>i\<bar> \<le> 10 ^ 12 \<Longrightarrow> float_operand (PInt i) = Inr (of_int i)"
  using float_limit_large by simp

lemma float_operand_defaults [simp]:
  "float_operand (PInt 3600) = Inr 3600" "float_operand (PInt 5184000) = Inr 5184000"
  using float_operand_small [of 3600] float_operand_small [of 5184000] by simp_all

lemma float_operand_as_num: "float_operand x = Inr d \<Longrightarrow> as_num x = Some d"
  by (cases x) (auto split: if_splits)

subsection \<open>\<open>save_token\<close>\<close>

lemma save_token_ok:
  "float_operand x = Inr d \<Longrightarrow>
   save_token m w ev a x r =
     (Inr (),
      m\<lparr>priv_access_token := a, priv_token_expires_at := PFloat (time_save ev + d),
        priv_refresh_token := (if truthy r then r else priv_refresh_token m)\<rparr>,
      w\<lparr>token_file :=
          (case fs_write ev of
             WriteOk \<Rightarrow> JsonFile (cache_entry a (PFloat (time_save ev + d)) r)
           | OpenFails \<Rightarrow> token_file w
           | DumpFails \<Rightarrow> BadJson)\<rparr>)"
  by (simp add: save_token_def Let_def write_cache_def split: write_outcome.splits)

lemma save_token_raises:
  "float_operand x = Inl e \<Longrightarrow>
   save_token m w ev a x r = (Inl e, m\<lparr>priv_access_token := a\<rparr>, w)"
  by (simp add: save_token_def Let_def)

lemma write_cache_frame:
  "net_log (write_cache wo v w) = net_log w"
  "listener (write_cache wo v w) = listener w"
  "browser_log (write_cache wo v w) = browser_log w"
  by (simp_all add: write_cache_def split: write_outcome.splits)

lemma save_token_world:
  "net_log (snd (snd (save_token m w ev a x r))) = net_log w"
  "listener (snd (snd (save_token m w ev a x r))) = listener w"
  "browser_log (snd (snd (save_token m w ev a x r))) = browser_log w"
  by (simp_all add: save_token_def Let_def write_cache_frame split: sum.splits)

lemma save_token_config:
  "client_id (fst (snd (save_token m w ev a x r))) = client_id m"
  "client_secret (fst (snd (save_token m w ev a x r))) = client_secret m"
  "redirect_uri (fst (snd (save_token m w ev a x r))) = redirect_uri m"
  "scopes (fst (snd (save_token m w ev a x r))) = scopes m"
  by (simp_all add: save_token_def Let_def split: sum.splits)


subsection \<open>The upgrade\<close>



lemma long_lived_result_world_indep:
  "fst (exchange_for_long_lived_token m w ev t) = fst (exchange_for_long_lived_token m w' ev t)"
  by (simp add: exchange_for_long_lived_token_def Let_def
      split: http_outcome.splits content.splits)

lemma long_lived_accepted:
  "is_configured m \<Longrightarrow> post ev (fb_exchange_params m t) = Accepted (Json v) \<Longrightarrow>
     exchange_for_long_lived_token m w ev t = (v, log_request (fb_exchange_params m t) w)"
  by (simp add: exchange_for_long_lived_token_def Let_def)


subsection \<open>A failed write changes neither the outcome nor the manager\<close>





subsection \<open>What a refresh stores\<close>

lemma refresh_if_needed_due:
  assumes "is_configured m" "truthy (priv_access_token m)"
    "as_num (priv_token_expires_at m) = Some e" "e \<noteq> 0" "e - REFRESH_BUFFER_SECONDS \<le> now"
    "post ev (fb_exchange_params m (priv_access_token m)) = Accepted (Json (PDict kvs))"
    "map_of kvs ''access_token'' = Some a" "truthy a"
  shows "refresh_if_needed m w ev now =
     save_token m (log_request (fb_exchange_params m (priv_access_token m)) w) ev a
       (case map_of kvs ''expires_in'' of None \<Rightarrow> PInt 5184000 | Some x \<Rightarrow> x)
       (priv_refresh_token m)"
proof -
  have t: "truthy (priv_token_expires_at m)" using assms(3,4) by (simp add: as_num_truthy)
  have k: "kvs \<noteq> []" using assms(7) by auto
  show ?thesis
    using assms t k
    by (simp add: refresh_if_needed_def before_margin_def long_lived_accepted)
qed

lemma refresh_token_accepted:
  assumes "truthy (priv_refresh_token m)"
    "post ev (fb_exchange_params m (priv_refresh_token m)) = Accepted (Json (PDict kvs))"
  shows "snd (refresh_token m w ev) =
     snd (save_token m (log_request (fb_exchange_params m (priv_refresh_token m)) w) ev
       (case map_of kvs ''access_token'' of None \<Rightarrow> PNone | Some x \<Rightarrow> x)
       (case map_of kvs ''expires_in'' of None \<Rightarrow> PInt 3600 | Some x \<Rightarrow> x)
       (priv_refresh_token m))"
    and "fst (refresh_token m w ev) =
     (case fst (save_token m (log_request (fb_exchange_params m (priv_refresh_token m)) w) ev
       (case map_of kvs ''access_token'' of None \<Rightarrow> PNone | Some x \<Rightarrow> x)
       (case map_of kvs ''expires_in'' of None \<Rightarrow> PInt 3600 | Some x \<Rightarrow> x)
       (priv_refresh_token m)) of Inl _ \<Rightarrow> Inr False | Inr _ \<Rightarrow> Inr True)"
  using assms
  by (simp_all add: refresh_token_def Let_def split_beta split: sum.splits)

subsection \<open>The results of the code exchange\<close>

lemma status_error_result_shape:
  assumes that: "provider_error_shape c"
  shows "\<exists>msg. status_error_result s c = Inr (failure_result msg)"
proof (cases c)
  case NoContent
  then show ?thesis by (auto simp: status_error_result_def)
next
  case NotJson
  then show ?thesis using that by (simp add: provider_error_shape_def)
next
  case (Json v)
  with that obtain kvs where v: "v = PDict kvs"
    by (cases v) (simp_all add: provider_error_shape_def)
  show ?thesis
  proof (cases "map_of kvs ''error''")
    case None
    with Json v show ?thesis by (auto simp: status_error_result_def)
  next
    case (Some er)
    with that Json v obtain ekvs where "er = PDict ekvs"
      by (cases er) (simp_all add: provider_error_shape_def)
    with Some Json v show ?thesis by (auto simp: status_error_result_def)
  qed
qed

lemma exchange_accepted_result:
  "fst (exchange_accepted m w ev c) = Inr res \<Longrightarrow> \<exists>a x. res = success_result a x"
  unfolding exchange_accepted_def
  by (auto simp: split_beta split: content.splits sum.splits prod.splits)

lemma is_result_simps [simp]:
  "is_result (success_result a x)" "is_result (failure_result msg)"
  by (simp_all add: is_result_def success_result_def failure_result_def)


subsection \<open>The code exchange followed by the upgrade\<close>


subsection \<open>The interactive flow\<close>

lemma dec_str_8080: "dec_str 8080 = ''8080''"
  by (simp add: dec_str.simps)

lemma is_configured_redirect [simp]:
  "is_configured (m\<lparr>redirect_uri := u\<rparr>) = is_configured m"
  by (simp add: is_configured_def)

lemma exchange_accepted_redirect:
  "redirect_uri (fst (snd (exchange_accepted m w ev c))) = redirect_uri m"
  unfolding exchange_accepted_def
  by (simp add: split_beta save_token_config split: content.splits sum.splits)

lemma exchange_code_redirect:
  "redirect_uri (fst (snd (exchange_code_for_token m w ev c))) = redirect_uri m"
  unfolding exchange_code_for_token_def
  by (simp add: Let_def split_beta exchange_accepted_redirect
      split: http_outcome.splits sum.splits)

lemma status_error_result_errors:
  "status_error_result s c = Inl e \<Longrightarrow> e = JSONDecodeError \<or> e = AttributeError"
  by (cases c) (auto simp: status_error_result_def elim!: dict_get.elims split: sum.splits)

lemma exchange_code_errors:
  "is_configured m \<Longrightarrow> fst (exchange_code_for_token m w ev c) = Inl e \<Longrightarrow>
     e = JSONDecodeError \<or> e = AttributeError"
  unfolding exchange_code_for_token_def
  by (auto simp: Let_def split_beta dest: status_error_result_errors
      split: if_splits http_outcome.splits sum.splits)

lemma exchange_code_is_result:
  "fst (exchange_code_for_token m w ev c) = Inr res \<Longrightarrow>
     (\<exists>a x. res = success_result a x) \<or> (\<exists>msg. res = failure_result msg)"
proof (cases "is_configured m")
  case False
  then show ?thesis if "fst (exchange_code_for_token m w ev c) = Inr res"
    using that by (simp add: exchange_code_for_token_def)
next
  case True
  assume r: "fst (exchange_code_for_token m w ev c) = Inr res"
  show ?thesis
  proof (cases "post ev (code_params m c)")
    case (TransportError s)
    with True r show ?thesis by (auto simp: exchange_code_for_token_def Let_def)
  next
    case (StatusError s b)
    with True r have "status_error_result s b = Inr res"
      by (simp add: exchange_code_for_token_def Let_def)
    then show ?thesis
      by (auto simp: status_error_result_def split: sum.splits)
  next
    case (Accepted b)
    show ?thesis
    proof (cases "fst (exchange_accepted m (log_request (code_params m c) w) ev b)")
      case (Inl e)
      with True Accepted r show ?thesis
        by (auto simp: exchange_code_for_token_def Let_def split_beta)
    next
      case (Inr res')
      with True Accepted r have "res' = res"
        by (simp add: exchange_code_for_token_def Let_def split_beta)
      with Inr show ?thesis using exchange_accepted_result by blast
    qed
  qed
qed

text \<open>The three ways the body of the \<^verbatim>\<open>try\<close> ends, by what the callback delivered.\<close>

lemma flow_body_no_code:
  assumes "is_configured m" "callback ev = NoCallback \<or> callback ev = NoCode"
  shows "fst (flow_body m w ev port) =
           (if callback ev = NoCallback
            then Inl (TimeoutError ''OAuth flow timed out. Please try again.'')
            else Inl (ValueError ''No code found in callback''))"
    and "redirect_uri (fst (snd (flow_body m w ev port))) =
           ''http://localhost:'' @ dec_str port @ ''/callback''"
  using assms
  by (auto simp: flow_body_def Let_def get_authorization_url_def)

lemma flow_body_code:
  assumes "is_configured m" "callback ev = Code c"
  shows "(\<exists>e. fst (flow_body m w ev port) = Inl e \<and>
              (e = JSONDecodeError \<or> e = AttributeError) \<and>
              redirect_uri (fst (snd (flow_body m w ev port))) =
                ''http://localhost:'' @ dec_str port @ ''/callback'') \<or>
         ((\<exists>s. fst (flow_body m w ev port) = Inr s) \<or>
          (\<exists>err. fst (flow_body m w ev port) = Inl (ExchangeFailed err))) \<and>
         redirect_uri (fst (snd (flow_body m w ev port))) = redirect_uri m"
proof -
  let ?m1 = "m\<lparr>redirect_uri := ''http://localhost:'' @ dec_str port @ ''/callback''\<rparr>"
  obtain url where url: "get_authorization_url ?m1 None = Inr url"
    using assms(1) by (simp add: get_authorization_url_def)
  let ?w1 = "w\<lparr>browser_log := browser_log w @ [url]\<rparr>"
  let ?x = "exchange_code_for_token ?m1 ?w1 ev c"
  show ?thesis
  proof (cases "fst ?x")
    case (Inl e)
    then have "e = JSONDecodeError \<or> e = AttributeError"
      using exchange_code_errors [of ?m1 ?w1 ev c e] assms(1) by simp
    moreover have "fst (flow_body m w ev port) = Inl e"
      "redirect_uri (fst (snd (flow_body m w ev port))) =
         ''http://localhost:'' @ dec_str port @ ''/callback''"
      using Inl url assms(2) exchange_code_redirect [of ?m1 ?w1 ev c]
      by (simp_all add: flow_body_def Let_def split_beta)
    ultimately show ?thesis by blast
  next
    case (Inr res)
    then consider a x where "res = success_result a x" | msg where "res = failure_result msg"
      using exchange_code_is_result by blast
    then show ?thesis
    proof cases
      case 1
      with Inr url assms(2) show ?thesis
        by (simp add: flow_body_def Let_def split_beta success_result_def)
    next
      case 2
      with Inr url assms(2) show ?thesis
        by (simp add: flow_body_def Let_def split_beta failure_result_def)
    qed
  qed
qed

section \<open>The claims\<close>

text \<open>
  C1, as amended. In the unconfigured state \<open>get_authorization_url\<close>,
  \<open>exchange_code_for_token\<close> and \<open>start_local_oauth_flow\<close> raise the
  \<^verbatim>\<open>ValueError\<close> of their guard and change neither the manager nor the world (no
  request is posted, no listener bound). \<open>refresh_if_needed\<close> changes nothing and posts
  nothing either, but it does not fail: it returns normally, unless a token is held with
  an expiry that is not a number, where its comparison raises \<^verbatim>\<open>TypeError\<close>.
  \<open>set_access_token\<close> has no guard: it stores the token and posts nothing, returning
  normally for every lifetime that converts to a float.
\<close>

theorem unconfigured_operations:
  assumes "\<not> is_configured m"
  shows "get_authorization_url m state =
           Inl (ValueError ''OAuth2 not configured. Set WHATSAPP_CLIENT_ID and WHATSAPP_CLIENT_SECRET'') \<and>
         exchange_code_for_token m w ev code = (Inl (ValueError ''OAuth2 not configured''), m, w) \<and>
         start_local_oauth_flow m w ev port =
           (Inl (ValueError ''OAuth2 not configured. Set WHATSAPP_CLIENT_ID and WHATSAPP_CLIENT_SECRET''), m, w) \<and>
         snd (refresh_if_needed m w ev now) = (m, w) \<and>
         fst (refresh_if_needed m w ev now) =
           (if truthy (priv_access_token m) \<and> truthy (priv_token_expires_at m) \<and>
               as_num (priv_token_expires_at m) = None
            then Inl TypeError else Inr ()) \<and>
         fst (set_access_token m w ev token expires_in) =
           (if \<bar>expires_in\<bar> < FLOAT_INT_LIMIT then Inr () else Inl OverflowError) \<and>
         priv_access_token (fst (snd (set_access_token m w ev token expires_in))) = PStr token \<and>
         net_log (snd (snd (set_access_token m w ev token expires_in))) = net_log w"
proof -
  have "fst (set_access_token m w ev token expires_in) =
           (if \<bar>expires_in\<bar> < FLOAT_INT_LIMIT then Inr () else Inl OverflowError)"
    "priv_access_token (fst (snd (set_access_token m w ev token expires_in))) = PStr token"
    by (simp_all add: set_access_token_def save_token_def Let_def)
  moreover have "net_log (snd (snd (set_access_token m w ev token expires_in))) = net_log w"
    by (simp add: set_access_token_def save_token_world)
  moreover have "snd (refresh_if_needed m w ev now) = (m, w)"
    "fst (refresh_if_needed m w ev now) =
           (if truthy (priv_access_token m) \<and> truthy (priv_token_expires_at m) \<and>
               as_num (priv_token_expires_at m) = None
            then Inl TypeError else Inr ())"
    using assms
    by (auto simp: refresh_if_needed_def before_margin_def split: option.splits)
  ultimately show ?thesis
    using assms
    by (simp add: get_authorization_url_def exchange_code_for_token_def
        start_local_oauth_flow_def)
qed

theorem unconfigured_operations_witness:
  "get_authorization_url m_unconfigured None =
     Inl (ValueError ''OAuth2 not configured. Set WHATSAPP_CLIENT_ID and WHATSAPP_CLIENT_SECRET'') \<and>
   exchange_code_for_token m_unconfigured world0 ev_demo ''abc'' =
     (Inl (ValueError ''OAuth2 not configured''), m_unconfigured, world0) \<and>
   start_local_oauth_flow m_unconfigured world0 ev_demo 8080 =
     (Inl (ValueError ''OAuth2 not configured. Set WHATSAPP_CLIENT_ID and WHATSAPP_CLIENT_SECRET''),
      m_unconfigured, world0) \<and>
   refresh_if_needed m_unconfigured_holding world0 ev_demo 5000 =
     (Inr (), m_unconfigured_holding, world0) \<and>
   fst (set_access_token m_unconfigured world0 ev_demo ''tok'' 3600) = Inr () \<and>
   priv_access_token (fst (snd (set_access_token m_unconfigured world0 ev_demo ''tok'' 3600))) =
     PStr ''tok'' \<and>
   net_log (snd (snd (set_access_token m_unconfigured world0 ev_demo ''tok'' 3600))) = []"
proof -
  have h: "truthy (priv_token_expires_at m_unconfigured_holding)"
    "as_num (priv_token_expires_at m_unconfigured_holding) = Some 2000"
    by (simp_all add: m_unconfigured_holding_def)
  have l: "\<bar>3600 :: int\<bar> < FLOAT_INT_LIMIT" using float_limit_large by simp
  from unconfigured_operations [OF is_configured_examples(2),
      of None world0 ev_demo "''abc''" 8080 5000 "''tok''" 3600]
    unconfigured_operations [OF is_configured_examples(4),
      of None world0 ev_demo "''abc''" 8080 5000 "''tok''" 3600] h l
  show ?thesis by (simp add: world0_def prod_eq_iff)
qed

text \<open>The claim as written fails for two of the five operations: in the unconfigured
  state \<open>set_access_token\<close> succeeds and stores the token, and \<open>refresh_if_needed\<close> on
  a manager whose token is about to expire returns normally.\<close>

theorem unconfigured_set_access_token_counterexample:
  "\<not> is_configured m_unconfigured \<and>
   fst (set_access_token m_unconfigured world0 ev_demo ''tok'' 3600) = Inr () \<and>
   priv_access_token (fst (snd (set_access_token m_unconfigured world0 ev_demo ''tok'' 3600))) =
     PStr ''tok'' \<and>
   \<not> is_configured m_unconfigured_holding \<and>
   fst (refresh_if_needed m_unconfigured_holding world0 ev_demo 5000) = Inr ()"
proof -
  have "fst (set_access_token m_unconfigured world0 ev_demo ''tok'' 3600) = Inr ()"
    "priv_access_token (fst (snd (set_access_token m_unconfigured world0 ev_demo ''tok'' 3600))) =
       PStr ''tok''"
    by (simp_all add: set_access_token_def save_token_ok [OF float_operand_defaults(1)])
  moreover have "fst (refresh_if_needed m_unconfigured_holding world0 ev_demo 5000) = Inr ()"
    by (simp add: refresh_if_needed_def before_margin_def REFRESH_BUFFER_SECONDS_def)
      (simp add: m_unconfigured_holding_def)
  ultimately show ?thesis by simp
qed

text \<open>
  C2, as amended. In a configured manager, and when the body of an answer the provider
  rejects the code with is empty or a JSON object whose \<^verbatim>\<open>error\<close> member, if
  any, is an object (the provider's \<^verbatim>\<open>{error: {message}}\<close>),
  \<open>exchange_code_for_token\<close> returns a dict whose \<^verbatim>\<open>success\<close> member is
  \<^verbatim>\<open>True\<close> or \<^verbatim>\<open>False\<close> and raises nothing. In an unconfigured
  manager it raises \<^verbatim>\<open>ValueError("OAuth2 not configured")\<close> at its guard,
  leaving the manager and the world as they were.
\<close>

theorem exchange_code_result:
  "(is_configured m \<and>
    (\<forall>s c. post ev (code_params m code) = StatusError s c \<longrightarrow> provider_error_shape c)
    \<longrightarrow> (\<exists>res. fst (exchange_code_for_token m w ev code) = Inr res \<and> is_result res)) \<and>
   (\<not> is_configured m
    \<longrightarrow> exchange_code_for_token m w ev code = (Inl (ValueError ''OAuth2 not configured''), m, w))"
proof (intro conjI impI)
  assume h: "is_configured m \<and>
    (\<forall>s c. post ev (code_params m code) = StatusError s c \<longrightarrow> provider_error_shape c)"
  show "\<exists>res. fst (exchange_code_for_token m w ev code) = Inr res \<and> is_result res"
  proof (cases "post ev (code_params m code)")
    case (TransportError s)
    with h show ?thesis by (simp add: exchange_code_for_token_def Let_def)
  next
    case (StatusError s c)
    with h have "provider_error_shape c" by blast
    then obtain msg where "status_error_result s c = Inr (failure_result msg)"
      using status_error_result_shape by blast
    with h StatusError show ?thesis by (simp add: exchange_code_for_token_def Let_def)
  next
    case (Accepted c)
    show ?thesis
    proof (cases "fst (exchange_accepted m (log_request (code_params m code) w) ev c)")
      case (Inl e)
      with h Accepted show ?thesis
        by (simp add: exchange_code_for_token_def Let_def split_beta)
    next
      case (Inr res)
      then obtain a x where "res = success_result a x"
        using exchange_accepted_result by blast
      with h Accepted Inr show ?thesis
        by (simp add: exchange_code_for_token_def Let_def split_beta)
    qed
  qed
next
  assume "\<not> is_configured m"
  then show "exchange_code_for_token m w ev code = (Inl (ValueError ''OAuth2 not configured''), m, w)"
    by (simp add: exchange_code_for_token_def)
qed

lemma exchange_demo_abc:
  "exchange_code_for_token m_configured world0 ev_demo ''abc'' =
     (Inr (success_result (PStr ''long'') (PInt 5184000)),
      m_configured\<lparr>priv_access_token := PStr ''long'', priv_token_expires_at := PFloat 5185000\<rparr>,
      world0\<lparr>token_file := JsonFile (cache_entry (PStr ''long'') (PFloat 5185000) PNone),
        net_log := [code_params m_configured ''abc'', fb_exchange_params m_configured (PStr ''short'')]\<rparr>)"
  by (simp add: exchange_code_for_token_def exchange_accepted_def exchange_for_long_lived_token_def
      supersede_def Let_def ev_demo_def provider_demo_def code_params_def fb_exchange_params_def
      log_request_def save_token_ok [OF float_operand_defaults(2)] world0_def)

lemma exchange_demo_bad:
  "exchange_code_for_token m_configured world0 ev_demo ''zzz'' =
     (Inr (failure_result (PStr ''Invalid code'')), m_configured,
      world0\<lparr>net_log := [code_params m_configured ''zzz'']\<rparr>)"
  by (simp add: exchange_code_for_token_def status_error_result_def
      Let_def ev_demo_def provider_demo_def code_params_def
      log_request_def world0_def)

theorem exchange_code_result_witness:
  "fst (exchange_code_for_token m_configured world0 ev_demo ''abc'') =
     Inr (success_result (PStr ''long'') (PInt 5184000)) \<and>
   fst (exchange_code_for_token m_configured world0 ev_demo ''zzz'') =
     Inr (failure_result (PStr ''Invalid code'')) \<and>
   exchange_code_for_token m_unconfigured world0 ev_demo ''abc'' =
     (Inl (ValueError ''OAuth2 not configured''), m_unconfigured, world0)"
  using exchange_code_result [of m_configured ev_demo "''abc''" world0]
    exchange_code_result [of m_configured ev_demo "''zzz''" world0]
    exchange_code_result [of m_unconfigured ev_demo "''abc''" world0]
  by (simp add: exchange_demo_abc exchange_demo_bad)

text \<open>The claim as written fails in the unconfigured state: the guard of line 103
  raises to the caller.\<close>

theorem exchange_code_raises_counterexample:
  "\<not> is_configured m_unconfigured \<and>
   fst (exchange_code_for_token m_unconfigured world0 ev_demo ''abc'') =
     Inl (ValueError ''OAuth2 not configured'')"
  by (simp add: exchange_code_for_token_def)







text \<open>
  C5, as amended. When the provider's answer has no \<^verbatim>\<open>expires_in\<close>, the refresh
  of \<open>refresh_if_needed\<close> (keyed off the held access token) stores an expiry of
  5,184,000 seconds after the clock reading, and the refresh of \<open>refresh_token\<close> (keyed
  off the refresh token) stores an expiry of 3,600 seconds after it.
\<close>

theorem default_expires_in:
  assumes "map_of kvs ''expires_in'' = None"
  shows "(is_configured m \<and> truthy (priv_access_token m) \<and>
           as_num (priv_token_expires_at m) = Some e \<and>
           e \<noteq> 0 \<and> e - REFRESH_BUFFER_SECONDS \<le> now \<and>
           post ev (fb_exchange_params m (priv_access_token m)) = Accepted (Json (PDict kvs)) \<and>
           (\<exists>a. map_of kvs ''access_token'' = Some a \<and> truthy a)
          \<longrightarrow> priv_token_expires_at (fst (snd (refresh_if_needed m w ev now))) =
                PFloat (time_save ev + 5184000)) \<and>
         (truthy (priv_refresh_token m) \<and>
           post ev (fb_exchange_params m (priv_refresh_token m)) = Accepted (Json (PDict kvs))
          \<longrightarrow> priv_token_expires_at (fst (snd (refresh_token m w ev))) =
                PFloat (time_save ev + 3600))"
proof (intro conjI impI)
  assume h: "is_configured m \<and> truthy (priv_access_token m) \<and>
           as_num (priv_token_expires_at m) = Some e \<and>
           e \<noteq> 0 \<and> e - REFRESH_BUFFER_SECONDS \<le> now \<and>
           post ev (fb_exchange_params m (priv_access_token m)) = Accepted (Json (PDict kvs)) \<and>
           (\<exists>a. map_of kvs ''access_token'' = Some a \<and> truthy a)"
  then obtain a where a: "map_of kvs ''access_token'' = Some a" "truthy a" by blast
  from h a have "refresh_if_needed m w ev now =
     save_token m (log_request (fb_exchange_params m (priv_access_token m)) w) ev a
       (PInt 5184000) (priv_refresh_token m)"
    using refresh_if_needed_due [of m e now ev kvs a w] assms by simp
  then show "priv_token_expires_at (fst (snd (refresh_if_needed m w ev now))) =
                PFloat (time_save ev + 5184000)"
    by (simp add: save_token_ok [OF float_operand_defaults(2)])
next
  assume h: "truthy (priv_refresh_token m) \<and>
           post ev (fb_exchange_params m (priv_refresh_token m)) = Accepted (Json (PDict kvs))"
  then show "priv_token_expires_at (fst (snd (refresh_token m w ev))) =
                PFloat (time_save ev + 3600)"
    using refresh_token_accepted(1) [of m ev kvs w] assms
    by (simp add: save_token_ok [OF float_operand_defaults(1)])
qed

theorem default_expires_in_witness:
  "priv_token_expires_at (fst (snd (refresh_if_needed m_holding world0 ev_omit 5000))) =
     PFloat 5185000 \<and>
   priv_token_expires_at (fst (snd (refresh_token m_holding world0 ev_omit))) = PFloat 4600"
proof -
  have h: "is_configured m_holding \<and> truthy (priv_access_token m_holding) \<and>
           as_num (priv_token_expires_at m_holding) = Some 2000 \<and>
           (2000 :: real) \<noteq> 0 \<and> 2000 - REFRESH_BUFFER_SECONDS \<le> (5000 :: real) \<and>
           post ev_omit (fb_exchange_params m_holding (priv_access_token m_holding)) =
             Accepted (Json (PDict [(''access_token'', PStr ''new'')])) \<and>
           (\<exists>a. map_of [(''access_token'', PStr ''new'')] ''access_token'' = Some a \<and> truthy a)"
    "truthy (priv_refresh_token m_holding) \<and>
           post ev_omit (fb_exchange_params m_holding (priv_refresh_token m_holding)) =
             Accepted (Json (PDict [(''access_token'', PStr ''new'')]))"
    by (simp_all add: m_holding_def ev_omit_def REFRESH_BUFFER_SECONDS_def is_configured_def
        m_configured_eq opt_str_def)
  have k: "map_of [(''access_token'', PStr ''new'')] ''expires_in'' = None" by simp
  have t: "time_save ev_omit = 1000" by (simp add: ev_omit_def)
  from default_expires_in [OF k, of m_holding 2000 5000 ev_omit world0] h t
  show ?thesis by simp
qed

text \<open>The claim as written fails on the path keyed off the refresh token: with the clock
  at 1000 and an answer without \<^verbatim>\<open>expires_in\<close>, \<open>refresh_token\<close> stores
  the expiry 1000 + 3600, not 1000 + 5184000.\<close>

theorem refresh_token_default_counterexample:
  "priv_token_expires_at (fst (snd (refresh_token m_holding world0 ev_omit))) =
     PFloat (1000 + 3600) \<and>
   priv_token_expires_at (fst (snd (refresh_token m_holding world0 ev_omit))) \<noteq>
     PFloat (1000 + 5184000)"
proof -
  have "truthy (priv_refresh_token m_holding)"
    "post ev_omit (fb_exchange_params m_holding (priv_refresh_token m_holding)) =
       Accepted (Json (PDict [(''access_token'', PStr ''new'')]))"
    "time_save ev_omit = 1000"
    by (simp_all add: m_holding_def ev_omit_def)
  then show ?thesis
    using refresh_token_accepted(1) [of m_holding ev_omit "[(''access_token'', PStr ''new'')]" world0]
    by (simp add: save_token_ok [OF float_operand_defaults(1)])
qed

subsection \<open>Each operation keeps the invariant\<close>

lemma store_inv_frame:
  "priv_access_token m' = priv_access_token m \<Longrightarrow>
   priv_token_expires_at m' = priv_token_expires_at m \<Longrightarrow>
   token_file w' = token_file w \<Longrightarrow> store_inv m' w' = store_inv m w"
  by (simp add: store_inv_def)

lemma cache_ok_entry [simp]: "cache_ok (JsonFile (cache_entry a (PFloat e) r))"
  by (simp add: cache_ok_def cache_entry_def)

lemma cache_ok_simps [simp]: "cache_ok NoFile" "cache_ok Unreadable" "cache_ok BadJson"
  by (simp_all add: cache_ok_def)

lemma save_token_inv:
  assumes "(\<exists>d. float_operand x = Inr d)" "cache_ok (token_file w)"
  shows "store_inv (fst (snd (save_token m w ev a x r))) (snd (snd (save_token m w ev a x r)))"
proof -
  from assms(1) obtain d where d: "float_operand x = Inr d" by auto
  show ?thesis
    using assms(2)
    by (cases "fs_write ev") (simp_all add: save_token_ok [OF d] store_inv_def)
qed

lemma long_lived_file:
  "token_file (snd (exchange_for_long_lived_token m w ev t)) = token_file w"
  by (simp add: exchange_for_long_lived_token_def Let_def log_request_def
      split: http_outcome.splits content.splits)

lemma long_lived_numeric:
  assumes "\<forall>req. numeric_lifetime (post ev req)"
    and "fst (exchange_for_long_lived_token m w ev t) = PDict kvs"
    and "map_of kvs ''expires_in'' = Some x"
  shows "(\<exists>d. float_operand x = Inr d)"
proof -
  from assms(2) have "post ev (fb_exchange_params m t) = Accepted (Json (PDict kvs))"
    by (auto simp: exchange_for_long_lived_token_def Let_def
        split: if_splits http_outcome.splits content.splits)
  with assms(1) have "numeric_lifetime (Accepted (Json (PDict kvs)))" by metis
  with assms(3) show ?thesis
    by (cases "float_operand x") (simp_all add: numeric_lifetime_def)
qed

lemma dict_get_numeric:
  assumes "numeric_lifetime (Accepted (Json v))" "dict_get v ''expires_in'' dflt = Inr x"
    and "\<exists>d. float_operand dflt = Inr d"
  shows "(\<exists>d. float_operand x = Inr d)"
proof (cases "float_operand x")
  case (Inr d)
  then show ?thesis by blast
next
  case (Inl e)
  with assms show ?thesis
    by (cases v) (auto simp: numeric_lifetime_def split: option.splits)
qed

lemma supersede_numeric:
  assumes "supersede ll a0 x0 = Inr (a, x)" "(\<exists>d. float_operand x0 = Inr d)"
    and "\<And>kvs y. ll = PDict kvs \<Longrightarrow> map_of kvs ''expires_in'' = Some y \<Longrightarrow> (\<exists>d. float_operand y = Inr d)"
  shows "(\<exists>d. float_operand x = Inr d)"
proof (cases "truthy ll")
  case False
  with assms(1,2) show ?thesis by (simp add: supersede_def del: float_operand.simps)
next
  case True
  with assms(1) obtain kvs where ll: "ll = PDict kvs"
    by (cases ll) (simp_all add: supersede_def)
  show ?thesis
  proof (cases "map_of kvs ''expires_in''")
    case None
    with assms(1,2) True ll show ?thesis by (simp add: supersede_def del: float_operand.simps)
  next
    case (Some y)
    with assms(1) True ll have "x = y" by (simp add: supersede_def)
    with assms(3) [OF ll Some] show ?thesis by simp
  qed
qed

lemma log_request_inv [simp]: "store_inv m (log_request req w) = store_inv m w"
  by (simp add: store_inv_def log_request_def)

lemma exchange_accepted_inv:
  assumes env: "\<forall>req. numeric_lifetime (post ev req)"
    and c: "numeric_lifetime (Accepted c)"
    and inv: "store_inv m w"
  shows "store_inv (fst (snd (exchange_accepted m w ev c))) (snd (snd (exchange_accepted m w ev c)))"
proof (cases c)
  case NoContent
  with inv show ?thesis by (simp add: exchange_accepted_def)
next
  case NotJson
  with inv show ?thesis by (simp add: exchange_accepted_def)
next
  case (Json token_data)
  show ?thesis
  proof (cases "dict_get token_data ''access_token'' PNone")
    case (Inl e)
    with Json inv show ?thesis by (simp add: exchange_accepted_def)
  next
    case a0: (Inr a0)
    then obtain td where td: "token_data = PDict td" by (cases token_data) simp_all
    obtain x0 where x0: "dict_get token_data ''expires_in'' (PInt 3600) = Inr x0"
      by (simp add: td)
    obtain r0 where r0: "dict_get token_data ''refresh_token'' PNone = Inr r0"
      by (simp add: td)
    have nx0: "(\<exists>d. float_operand x0 = Inr d)"
      using dict_get_numeric [of token_data "PInt 3600" x0] c x0 Json float_operand_defaults(1)
      by blast
    let ?ll = "exchange_for_long_lived_token m w ev a0"
    have cw1: "cache_ok (token_file (snd ?ll))"
      using inv by (simp add: long_lived_file store_inv_def)
    have invw1: "store_inv m (snd ?ll)"
      using inv by (simp add: long_lived_file store_inv_def)
    show ?thesis
    proof (cases "supersede (fst ?ll) a0 x0")
      case (Inl e)
      with Json a0 x0 invw1 show ?thesis
        by (simp add: exchange_accepted_def split_beta)
    next
      case (Inr ax)
      obtain a x where ax: "ax = (a, x)" by (cases ax)
      have nx: "(\<exists>d. float_operand x = Inr d)"
        using supersede_numeric [of "fst ?ll" a0 x0 a x] Inr ax nx0
          long_lived_numeric [OF env, of m w a0] by blast
      have "store_inv (fst (snd (save_token m (snd ?ll) ev a x r0)))
              (snd (snd (save_token m (snd ?ll) ev a x r0)))"
        using save_token_inv [OF nx cw1] .
      with Json a0 x0 r0 Inr ax show ?thesis
        by (simp add: exchange_accepted_def split_beta split: sum.splits)
    qed
  qed
qed

lemma exchange_code_inv:
  assumes env: "\<forall>req. numeric_lifetime (post ev req)" and inv: "store_inv m w"
  shows "store_inv (fst (snd (exchange_code_for_token m w ev code)))
           (snd (snd (exchange_code_for_token m w ev code)))"
proof (cases "is_configured m")
  case False
  with inv show ?thesis by (simp add: exchange_code_for_token_def)
next
  case True
  show ?thesis
  proof (cases "post ev (code_params m code)")
    case (TransportError s)
    with True inv show ?thesis by (simp add: exchange_code_for_token_def Let_def)
  next
    case (StatusError s c)
    with True inv show ?thesis by (simp add: exchange_code_for_token_def Let_def)
  next
    case (Accepted c)
    with env have "numeric_lifetime (Accepted c)" by metis
    from exchange_accepted_inv [OF env this, of m "log_request (code_params m code) w"] inv
    have "store_inv (fst (snd (exchange_accepted m (log_request (code_params m code) w) ev c)))
            (snd (snd (exchange_accepted m (log_request (code_params m code) w) ev c)))"
      by simp
    with True Accepted show ?thesis
      by (simp add: exchange_code_for_token_def Let_def split_beta split: sum.splits)
  qed
qed

lemma refresh_if_needed_inv:
  assumes env: "\<forall>req. numeric_lifetime (post ev req)" and inv: "store_inv m w"
  shows "store_inv (fst (snd (refresh_if_needed m w ev now)))
           (snd (snd (refresh_if_needed m w ev now)))"
proof -
  let ?ll = "exchange_for_long_lived_token m w ev (priv_access_token m)"
  have invw1: "store_inv m (snd ?ll)" and cw1: "cache_ok (token_file (snd ?ll))"
    using inv by (simp_all add: long_lived_file store_inv_def)
  have saved: "store_inv (fst (snd (save_token m (snd ?ll) ev a x r)))
                 (snd (snd (save_token m (snd ?ll) ev a x r)))"
    if "dict_get (fst ?ll) ''expires_in'' (PInt 5184000) = Inr x" for a x r
  proof -
    from that obtain kvs where kvs: "fst ?ll = PDict kvs" by (cases "fst ?ll") simp_all
    have "(\<exists>d. float_operand x = Inr d)"
    proof (cases "map_of kvs ''expires_in''")
      case None
      with that kvs have "x = PInt 5184000" by simp
      then show ?thesis using float_operand_defaults(2) by blast
    next
      case (Some y)
      with that kvs have "x = y" by simp
      with long_lived_numeric [OF env kvs Some] show ?thesis by simp
    qed
    then show ?thesis using cw1 by (rule save_token_inv)
  qed
  show ?thesis
    unfolding refresh_if_needed_def
    using inv invw1 saved
    by (simp add: split_beta split: sum.splits)
qed

lemma refresh_token_inv:
  assumes env: "\<forall>req. numeric_lifetime (post ev req)" and inv: "store_inv m w"
  shows "store_inv (fst (snd (refresh_token m w ev))) (snd (snd (refresh_token m w ev)))"
proof (cases "truthy (priv_refresh_token m)")
  case False
  with inv show ?thesis by (simp add: refresh_token_def)
next
  case True
  let ?p = "fb_exchange_params m (priv_refresh_token m)"
  show ?thesis
  proof (cases "post ev ?p")
    case (TransportError s)
    with True inv show ?thesis by (simp add: refresh_token_def Let_def)
  next
    case (StatusError s c)
    with True inv show ?thesis by (simp add: refresh_token_def Let_def)
  next
    case (Accepted c)
    with env have n: "numeric_lifetime (Accepted c)" by metis
    have cw: "cache_ok (token_file (log_request ?p w))"
      using inv by (simp add: store_inv_def log_request_def)
    have saved: "store_inv (fst (snd (save_token m (log_request ?p w) ev a x r)))
                 (snd (snd (save_token m (log_request ?p w) ev a x r)))"
      if "c = Json v" "dict_get v ''expires_in'' (PInt 3600) = Inr x" for v a x r
      using save_token_inv [OF _ cw] dict_get_numeric [of v "PInt 3600" x] n that
        float_operand_defaults(1) by blast
    show ?thesis
      using True Accepted inv saved
      by (cases c) (simp_all add: refresh_token_def Let_def split_beta split: sum.splits)
  qed
qed

lemma set_access_token_inv:
  assumes "store_inv m w" "\<bar>expires_in\<bar> < FLOAT_INT_LIMIT"
  shows "store_inv (fst (snd (set_access_token m w ev token expires_in)))
           (snd (snd (set_access_token m w ev token expires_in)))"
  using assms save_token_inv [of "PInt expires_in" w m ev "PStr token" PNone]
  by (simp add: set_access_token_def store_inv_def)

lemma clear_token_inv:
  assumes "store_inv m w"
  shows "store_inv (fst (clear_token m w ev)) (snd (clear_token m w ev))"
  using assms by (simp add: clear_token_def store_inv_def)

lemma init_inv:
  assumes "cache_ok (token_file w)"
  shows "store_inv (OAuth2TokenManager_init getenv w) w"
proof (cases "token_file w")
  case (JsonFile data)
  show ?thesis
  proof (cases data)
    case (PDict kvs)
    with JsonFile assms show ?thesis
      by (auto simp: OAuth2TokenManager_init_def load_cached_token_def store_inv_def cache_ok_def)
  qed (use JsonFile assms in
      \<open>simp_all add: OAuth2TokenManager_init_def load_cached_token_def store_inv_def\<close>)
qed (use assms in \<open>simp_all add: OAuth2TokenManager_init_def load_cached_token_def store_inv_def\<close>)

lemma has_valid_token_inv:
  assumes "store_inv m w" "cache_ok file" "has_valid_token (Some m) file now = (res, Some m')"
  shows "store_inv m' w"
proof (cases "file")
  case (JsonFile data)
  show ?thesis
  proof (cases data)
    case (PDict kvs)
    with JsonFile assms show ?thesis
      by (auto simp: has_valid_token_def store_inv_def cache_ok_def
          split: if_splits sum.splits)
  qed (use JsonFile assms in
      \<open>auto simp: has_valid_token_def store_inv_def split: if_splits sum.splits\<close>)
qed (use assms in \<open>auto simp: has_valid_token_def store_inv_def split: if_splits sum.splits\<close>)

lemma store_inv_updates [simp]:
  "store_inv (m\<lparr>redirect_uri := u\<rparr>) w = store_inv m w"
  "store_inv m (w\<lparr>listener := l\<rparr>) = store_inv m w"
  "store_inv m (w\<lparr>browser_log := b\<rparr>) = store_inv m w"
  by (simp_all add: store_inv_def)

lemma flow_body_inv:
  assumes env: "\<forall>req. numeric_lifetime (post ev req)" and inv: "store_inv m w"
  shows "store_inv (fst (snd (flow_body m w ev port))) (snd (snd (flow_body m w ev port)))"
proof -
  let ?m1 = "m\<lparr>redirect_uri := ''http://localhost:'' @ dec_str port @ ''/callback''\<rparr>"
  show ?thesis
  proof (cases "get_authorization_url ?m1 None")
    case (Inl e)
    with inv show ?thesis by (simp add: flow_body_def Let_def)
  next
    case (Inr url)
    let ?w1 = "w\<lparr>browser_log := browser_log w @ [url]\<rparr>"
    show ?thesis
    proof (cases "callback ev")
      case (Code c)
      have "store_inv (fst (snd (exchange_code_for_token ?m1 ?w1 ev c)))
              (snd (snd (exchange_code_for_token ?m1 ?w1 ev c)))"
        using exchange_code_inv [OF env, of ?m1 ?w1 c] inv by simp
      with Inr Code show ?thesis
        by (simp add: flow_body_def Let_def split_beta split: sum.splits)
    next
      case NoCode
      with Inr inv show ?thesis by (simp add: flow_body_def Let_def)
    next
      case NoCallback
      with Inr inv show ?thesis by (simp add: flow_body_def Let_def)
    qed
  qed
qed

lemma start_local_oauth_flow_inv:
  assumes env: "\<forall>req. numeric_lifetime (post ev req)" and inv: "store_inv m w"
  shows "store_inv (fst (snd (start_local_oauth_flow m w ev port)))
           (snd (snd (start_local_oauth_flow m w ev port)))"
  using flow_body_inv [OF env, of m "w\<lparr>listener := Some port\<rparr>" port] inv
  by (simp add: start_local_oauth_flow_def split_beta)

lemma reachable_store_inv: "reachable m w \<Longrightarrow> store_inv m w"
proof (induction rule: reachable.induct)
  case (construct w getenv)
  then show ?case by (rule init_inv)
next
  case (save m w x d ev a r res m' w')
  from save.hyps(2) have "\<exists>d. float_operand x = Inr d" by blast
  from save_token_inv [OF this, of w m ev a r] save.IH save.hyps(3)
  show ?case by (simp add: store_inv_def)
next
  case (exchange m w ev code res1 m' w')
  from exchange_code_inv [OF exchange.hyps(2) exchange.IH, of code] exchange.hyps(3)
  show ?case by simp
next
  case (refresh m w ev now res m' w')
  from refresh_if_needed_inv [OF refresh.hyps(2) refresh.IH, of now] refresh.hyps(3)
  show ?case by simp
next
  case (refresh_by_token m w ev res2 m' w')
  from refresh_token_inv [OF refresh_by_token.hyps(2) refresh_by_token.IH]
    refresh_by_token.hyps(3)
  show ?case by simp
next
  case (set m w expires_in ev token res m' w')
  from set_access_token_inv [OF set.IH set.hyps(2), where ev = ev and token = token] set.hyps(3)
  show ?case by simp
next
  case (clear m w ev m' w')
  from clear_token_inv [OF clear.IH, of ev] clear.hyps(2)
  show ?case by simp
next
  case (flow m w ev port res3 m' w')
  from start_local_oauth_flow_inv [OF flow.hyps(2) flow.IH, of port] flow.hyps(3)
  show ?case by simp
next
  case (has_valid m w other now res4 m')
  then show ?case using has_valid_token_inv by blast
qed

text \<open>
  C6, as amended. In every state the manager reaches when its inputs are well typed, an
  access token that is present comes with an expiry that is present. Well typed means:
  every cache file read (by the constructor and by \<open>has_valid_token\<close>) is absent,
  unreadable, malformed, or JSON that carries an \<^verbatim>\<open>expires_at\<close> whenever it
  carries an \<^verbatim>\<open>access_token\<close>; and every lifetime (of save and set, and in the
  provider's answers to exchange, refresh and the interactive flow) is a number that
  converts to a float. The writers of the two attributes write them together:
  \<open>save_token\<close> with such a lifetime sets the token and the expiry
  \<open>time_save + lifetime\<close>, \<open>clear_token\<close> empties both, and the load of a cache
  object takes both from it.
\<close>

theorem access_token_has_expiry:
  assumes "reachable m w"
  shows "(priv_access_token m \<noteq> PNone \<longrightarrow> priv_token_expires_at m \<noteq> PNone) \<and>
         (float_operand x = Inr d \<longrightarrow>
            priv_access_token (fst (snd (save_token m w ev a x r))) = a \<and>
            priv_token_expires_at (fst (snd (save_token m w ev a x r))) =
              PFloat (time_save ev + d)) \<and>
         priv_access_token (fst (clear_token m w ev)) = PNone \<and>
         priv_token_expires_at (fst (clear_token m w ev)) = PNone \<and>
         (token_file w = JsonFile (PDict kvs) \<longrightarrow>
            priv_access_token (load_cached_token m w) =
              (case map_of kvs ''access_token'' of None \<Rightarrow> PNone | Some v \<Rightarrow> v) \<and>
            priv_token_expires_at (load_cached_token m w) =
              (case map_of kvs ''expires_at'' of None \<Rightarrow> PNone | Some v \<Rightarrow> v))"
proof -
  have "priv_access_token m \<noteq> PNone \<longrightarrow> priv_token_expires_at m \<noteq> PNone"
    using reachable_store_inv [OF assms] by (simp add: store_inv_def)
  moreover have "float_operand x = Inr d \<longrightarrow>
            priv_access_token (fst (snd (save_token m w ev a x r))) = a \<and>
            priv_token_expires_at (fst (snd (save_token m w ev a x r))) =
              PFloat (time_save ev + d)"
    by (simp add: save_token_def Let_def)
  moreover have "priv_access_token (fst (clear_token m w ev)) = PNone \<and>
         priv_token_expires_at (fst (clear_token m w ev)) = PNone"
    by (simp add: clear_token_def)
  moreover have "token_file w = JsonFile (PDict kvs) \<longrightarrow>
            priv_access_token (load_cached_token m w) =
              (case map_of kvs ''access_token'' of None \<Rightarrow> PNone | Some v \<Rightarrow> v) \<and>
            priv_token_expires_at (load_cached_token m w) =
              (case map_of kvs ''expires_at'' of None \<Rightarrow> PNone | Some v \<Rightarrow> v)"
    by (simp add: load_cached_token_def)
  ultimately show ?thesis by blast
qed

theorem access_token_has_expiry_witness:
  "priv_access_token (fst (snd (set_access_token m_configured world0 ev_demo ''tok'' 3600))) =
     PStr ''tok'' \<and>
   priv_token_expires_at (fst (snd (set_access_token m_configured world0 ev_demo ''tok'' 3600))) \<noteq>
     PNone"
proof -
  let ?s = "set_access_token m_configured world0 ev_demo ''tok'' 3600"
  have l: "\<bar>3600 :: int\<bar> < FLOAT_INT_LIMIT" using float_limit_large by simp
  have "reachable m_configured world0"
    unfolding m_configured_def
    by (rule reachable.construct) (simp add: world0_def)
  then have r: "reachable (fst (snd ?s)) (snd (snd ?s))"
    by (rule reachable.set [where res = "fst ?s", OF _ l]) simp
  have t: "priv_access_token (fst (snd ?s)) = PStr ''tok''"
    by (simp add: set_access_token_def save_token_def Let_def)
  from access_token_has_expiry [OF r, THEN conjunct1] t show ?thesis by simp
qed

text \<open>The claim as written fails on inputs that are not well typed in this sense. A
  manager built over the cache object \<^verbatim>\<open>{"access_token": "A"}\<close> holds the token
  \<^verbatim>\<open>A\<close> and no expiry. And \<open>set_access_token\<close> with the lifetime \<open>10^400\<close>
  on a fresh manager raises \<^verbatim>\<open>OverflowError\<close> between the two assignments of
  \<open>save_token\<close>, leaving the token without an expiry.\<close>

theorem token_without_expiry_counterexample:
  "priv_access_token (OAuth2TokenManager_init getenv_configured world_partial_cache) = PStr ''A'' \<and>
   priv_token_expires_at (OAuth2TokenManager_init getenv_configured world_partial_cache) = PNone \<and>
   set_access_token m_configured world0 ev_demo ''tok'' (10 ^ 400) =
     (Inl OverflowError, m_configured\<lparr>priv_access_token := PStr ''tok''\<rparr>, world0) \<and>
   priv_token_expires_at (m_configured\<lparr>priv_access_token := PStr ''tok''\<rparr>) = PNone"
proof -
  have "float_operand (PInt (10 ^ 400)) = Inl OverflowError"
    using float_limit_googol by simp
  then have "set_access_token m_configured world0 ev_demo ''tok'' (10 ^ 400) =
     (Inl OverflowError, m_configured\<lparr>priv_access_token := PStr ''tok''\<rparr>, world0)"
    by (simp add: set_access_token_def save_token_raises del: float_operand.simps)
  moreover have
    "priv_access_token (OAuth2TokenManager_init getenv_configured world_partial_cache) = PStr ''A''"
    "priv_token_expires_at (OAuth2TokenManager_init getenv_configured world_partial_cache) = PNone"
    by (simp_all add: OAuth2TokenManager_init_def load_cached_token_def world_partial_cache_def)
  ultimately show ?thesis by (simp add: m_configured_eq)
qed

subsection \<open>What a successful acquisition has stored\<close>

lemma save_token_returns:
  assumes "fst (save_token m w ev a x r) = Inr u"
  shows "\<exists>d. float_operand x = Inr d"
proof (cases "float_operand x")
  case (Inl e)
  with assms show ?thesis by (simp add: save_token_raises)
next
  case (Inr d)
  then show ?thesis by blast
qed

lemma result_distinct [simp]:
  "failure_result msg \<noteq> success_result a x"
  "(success_result a x = success_result a' x') = (a = a' \<and> x = x')"
  by (auto simp: failure_result_def success_result_def)









text \<open>
  C8. When the write works, the file that \<open>save_token\<close> leaves for a token string, the
  lifetime 3600 and any refresh token is read back by a fresh manager with the same
  access token, the same refresh token and the expiry \<open>time_save + 3600\<close>, which is
  within one second of \<open>now + 3600\<close> for every \<open>now\<close> within one second of the clock
  reading of the save. A fresh manager built over a missing, unreadable or malformed
  file holds no credential; the load has no way to raise.
\<close>

theorem store_round_trip:
  assumes "fs_write ev = WriteOk" "x = PInt 3600 \<or> x = PFloat 3600"
  shows "fst (save_token m w ev (PStr token) x refresh) = Inr () \<and>
         priv_access_token
           (OAuth2TokenManager_init getenv
              (snd (snd (save_token m w ev (PStr token) x refresh)))) = PStr token \<and>
         priv_token_expires_at
           (OAuth2TokenManager_init getenv
              (snd (snd (save_token m w ev (PStr token) x refresh)))) =
           PFloat (time_save ev + 3600) \<and>
         priv_refresh_token
           (OAuth2TokenManager_init getenv
              (snd (snd (save_token m w ev (PStr token) x refresh)))) = refresh \<and>
         (\<exists>e. priv_token_expires_at
                (OAuth2TokenManager_init getenv
                   (snd (snd (save_token m w ev (PStr token) x refresh)))) = PFloat e \<and>
              (\<bar>now - time_save ev\<bar> \<le> 1 \<longrightarrow> \<bar>e - (now + 3600)\<bar> \<le> 1)) \<and>
         (token_file w0 = NoFile \<or> token_file w0 = Unreadable \<or> token_file w0 = BadJson \<longrightarrow>
            priv_access_token (OAuth2TokenManager_init getenv w0) = PNone \<and>
            priv_token_expires_at (OAuth2TokenManager_init getenv w0) = PNone \<and>
            priv_refresh_token (OAuth2TokenManager_init getenv w0) = PNone)"
proof -
  from assms(2) have d: "float_operand x = Inr 3600"
    using float_operand_defaults(1) by auto
  have l: "token_file w0 = NoFile \<or> token_file w0 = Unreadable \<or> token_file w0 = BadJson \<longrightarrow>
            priv_access_token (OAuth2TokenManager_init getenv w0) = PNone \<and>
            priv_token_expires_at (OAuth2TokenManager_init getenv w0) = PNone \<and>
            priv_refresh_token (OAuth2TokenManager_init getenv w0) = PNone"
    by (auto simp: OAuth2TokenManager_init_def load_cached_token_def)
  have s: "fst (save_token m w ev (PStr token) x refresh) = Inr ()"
    "priv_access_token
           (OAuth2TokenManager_init getenv
              (snd (snd (save_token m w ev (PStr token) x refresh)))) = PStr token"
    "priv_token_expires_at
           (OAuth2TokenManager_init getenv
              (snd (snd (save_token m w ev (PStr token) x refresh)))) =
           PFloat (time_save ev + 3600)"
    "priv_refresh_token
           (OAuth2TokenManager_init getenv
              (snd (snd (save_token m w ev (PStr token) x refresh)))) = refresh"
    using assms(1)
    by (simp_all add: save_token_ok [OF d] OAuth2TokenManager_init_def load_cached_token_def
        cache_entry_def)
  have "\<bar>now - time_save ev\<bar> \<le> 1 \<longrightarrow> \<bar>time_save ev + 3600 - (now + 3600)\<bar> \<le> 1" by arith
  with s(3) have e: "\<exists>e. priv_token_expires_at
                (OAuth2TokenManager_init getenv
                   (snd (snd (save_token m w ev (PStr token) x refresh)))) = PFloat e \<and>
              (\<bar>now - time_save ev\<bar> \<le> 1 \<longrightarrow> \<bar>e - (now + 3600)\<bar> \<le> 1)"
    by blast
  from s e l show ?thesis by blast
qed

theorem store_round_trip_witness:
  "priv_access_token
     (OAuth2TokenManager_init getenv_configured
        (snd (snd (save_token m_configured world0 ev_demo (PStr ''tok'') (PInt 3600) (PStr ''R''))))) =
     PStr ''tok'' \<and>
   priv_token_expires_at
     (OAuth2TokenManager_init getenv_configured
        (snd (snd (save_token m_configured world0 ev_demo (PStr ''tok'') (PInt 3600) (PStr ''R''))))) =
     PFloat 4600 \<and>
   priv_refresh_token
     (OAuth2TokenManager_init getenv_configured
        (snd (snd (save_token m_configured world0 ev_demo (PStr ''tok'') (PInt 3600) (PStr ''R''))))) =
     PStr ''R'' \<and>
   priv_access_token (OAuth2TokenManager_init getenv_configured (world0\<lparr>token_file := BadJson\<rparr>)) =
     PNone"
proof -
  have h: "fs_write ev_demo = WriteOk" "time_save ev_demo = 1000" by (simp_all add: ev_demo_def)
  have x: "PInt 3600 = PInt 3600 \<or> PInt 3600 = PFloat 3600" by simp
  have b: "token_file (world0\<lparr>token_file := BadJson\<rparr>) = BadJson" by simp
  note t = store_round_trip [OF h(1) x, where getenv = getenv_configured and m = m_configured
      and w = world0 and token = "''tok''" and refresh = "PStr ''R''" and now = 1000
      and ?w0.0 = "world0\<lparr>token_file := BadJson\<rparr>"]
  from t b h(2) show ?thesis by simp
qed

text \<open>
  C9, what the code does. Once the listener is bound, every way out of
  \<open>start_local_oauth_flow\<close> leaves it shut down: the \<^verbatim>\<open>finally\<close> clause runs on
  each. The redirect URI is another matter: line 320 restores it only after the code
  exchange has returned, so it is restored when the flow succeeds or fails with the
  exchange's failure result, while the timeout and the callback without a code leave the
  manager with \<^verbatim>\<open>http://localhost:{port}/callback\<close>.
\<close>

theorem flow_exit_paths:
  assumes "is_configured m" "bind_ok ev"
  shows "listener (snd (snd (start_local_oauth_flow m w ev port))) = None \<and>
         (callback ev = NoCallback \<longrightarrow>
            fst (start_local_oauth_flow m w ev port) =
              Inl (TimeoutError ''OAuth flow timed out. Please try again.'') \<and>
            redirect_uri (fst (snd (start_local_oauth_flow m w ev port))) =
              ''http://localhost:'' @ dec_str port @ ''/callback'') \<and>
         (callback ev = NoCode \<longrightarrow>
            fst (start_local_oauth_flow m w ev port) =
              Inl (ValueError ''No code found in callback'') \<and>
            redirect_uri (fst (snd (start_local_oauth_flow m w ev port))) =
              ''http://localhost:'' @ dec_str port @ ''/callback'') \<and>
         ((\<exists>s. fst (start_local_oauth_flow m w ev port) = Inr s) \<or>
          (\<exists>err. fst (start_local_oauth_flow m w ev port) = Inl (ExchangeFailed err)) \<longrightarrow>
            redirect_uri (fst (snd (start_local_oauth_flow m w ev port))) = redirect_uri m)"
proof -
  let ?b = "flow_body m (w\<lparr>listener := Some port\<rparr>) ev port"
  have s: "start_local_oauth_flow m w ev port =
      (fst ?b, fst (snd ?b), (snd (snd ?b))\<lparr>listener := None\<rparr>)"
    using assms by (simp add: start_local_oauth_flow_def split_beta)
  have 1: "listener (snd (snd (start_local_oauth_flow m w ev port))) = None"
    by (simp add: s)
  have 2: "fst (start_local_oauth_flow m w ev port) =
              Inl (TimeoutError ''OAuth flow timed out. Please try again.'') \<and>
            redirect_uri (fst (snd (start_local_oauth_flow m w ev port))) =
              ''http://localhost:'' @ dec_str port @ ''/callback''"
    if "callback ev = NoCallback"
    using flow_body_no_code [OF assms(1), of ev "w\<lparr>listener := Some port\<rparr>" port] that
    by (simp add: s)
  have 3: "fst (start_local_oauth_flow m w ev port) =
              Inl (ValueError ''No code found in callback'') \<and>
            redirect_uri (fst (snd (start_local_oauth_flow m w ev port))) =
              ''http://localhost:'' @ dec_str port @ ''/callback''"
    if "callback ev = NoCode"
    using flow_body_no_code [OF assms(1), of ev "w\<lparr>listener := Some port\<rparr>" port] that
    by (simp add: s)
  have 4: "redirect_uri (fst (snd (start_local_oauth_flow m w ev port))) = redirect_uri m"
    if h: "(\<exists>s. fst (start_local_oauth_flow m w ev port) = Inr s) \<or>
          (\<exists>err. fst (start_local_oauth_flow m w ev port) = Inl (ExchangeFailed err))"
  proof (cases "callback ev")
    case (Code c)
    from flow_body_code [OF assms(1) Code, of "w\<lparr>listener := Some port\<rparr>" port] h
    show ?thesis by (auto simp: s)
  next
    case NoCode
    with 3 h show ?thesis by auto
  next
    case NoCallback
    with 2 h show ?thesis by auto
  qed
  from 1 2 3 4 show ?thesis by blast
qed

text \<open>With the redirect URI \<^verbatim>\<open>https://example.com/cb\<close> configured and no callback
  within the timeout, the flow on port 8080 raises \<^verbatim>\<open>TimeoutError\<close>, the listener
  is down, and the manager is left with the redirect URI of the flow.\<close>

theorem flow_exit_paths_witness:
  "fst (start_local_oauth_flow m_custom world0 ev_timeout 8080) =
     Inl (TimeoutError ''OAuth flow timed out. Please try again.'') \<and>
   listener (snd (snd (start_local_oauth_flow m_custom world0 ev_timeout 8080))) = None \<and>
   redirect_uri (fst (snd (start_local_oauth_flow m_custom world0 ev_timeout 8080))) =
     ''http://localhost:8080/callback'' \<and>
   redirect_uri m_custom = ''https://example.com/cb''"
proof -
  have c: "is_configured m_custom" "bind_ok ev_timeout" "callback ev_timeout = NoCallback"
    by (simp_all add: m_custom_def ev_timeout_def ev_demo_def)
  from flow_exit_paths [OF c(1,2), of world0 8080] c(3)
  show ?thesis by (simp add: dec_str_8080 m_custom_def)
qed


text \<open>
  C10. \<open>get_access_token\<close> only reads the manager. When the stored expiry is absent or a
  number (its declared type is \<^verbatim>\<open>Optional[float]\<close>), it returns the stored access
  token whatever the clock says, on both sides of the comparison with
  \<open>expires_at - 300\<close>: an expired token is returned as it is, and the result is
  \<open>None\<close> exactly when no token is stored.
\<close>

theorem get_access_token_returns_stored:
  assumes "priv_token_expires_at m = PNone \<or> (\<exists>e. as_num (priv_token_expires_at m) = Some e)"
  shows "get_access_token m now = Inr (priv_access_token m) \<and>
         (get_access_token m now = Inr PNone) = (priv_access_token m = PNone)"
  using assms by (auto simp: get_access_token_def before_margin_def)

theorem get_access_token_returns_stored_witness:
  "get_access_token m_holding 5000 = Inr (PStr ''old'') \<and>
   get_access_token m_configured 5000 = Inr PNone"
proof -
  have h: "priv_token_expires_at m_holding = PNone \<or>
      (\<exists>e. as_num (priv_token_expires_at m_holding) = Some e)"
    "priv_token_expires_at m_configured = PNone \<or>
      (\<exists>e. as_num (priv_token_expires_at m_configured) = Some e)"
    by (simp_all add: m_holding_def m_configured_eq)
  have t: "priv_access_token m_holding = PStr ''old''" "priv_access_token m_configured = PNone"
    by (simp_all add: m_holding_def m_configured_eq)
  from get_access_token_returns_stored [OF h(1), of 5000]
    get_access_token_returns_stored [OF h(2), of 5000] t
  show ?thesis by simp
qed

end
